theory Spec2Isabelle
  imports Complex_Main
begin

section \<open>Fields\<close>

text \<open>
  Every array of the three solver variants (\<^verbatim>\<open>fluid_simulator_base.py\<close>,
  \<^verbatim>\<open>fluid_simulator_pro.py\<close>, \<^verbatim>\<open>fluid_simulator_thinking.py\<close>) has shape
  \<open>(N+2, N+2)\<close>. A field is read here as the function from (row, column) to the value of
  that cell; the resolution \<open>N\<close> travels with every operator, as \<^verbatim>\<open>self.params.N\<close>,
  \<^verbatim>\<open>x.shape[0] - 2\<close> or the global \<^verbatim>\<open>N\<close> does in the sources. Only indices
  \<open>0..N+1\<close> are cells of the array. Cell values are real numbers: rounding, infinities
  and NaN of the float arrays are not part of this model.
\<close>

type_synonym field = "nat \<Rightarrow> nat \<Rightarrow> real"

definition interior :: "nat \<Rightarrow> nat \<Rightarrow> nat \<Rightarrow> bool" where
  "interior N i j = (1 \<le> i \<and> i \<le> N \<and> 1 \<le> j \<and> j \<le> N)"

text \<open>\<^verbatim>\<open>x[r, 1:-1] = f\<close>: one row, the columns \<open>1..N\<close>.\<close>

definition set_row :: "nat \<Rightarrow> field \<Rightarrow> nat \<Rightarrow> (nat \<Rightarrow> real) \<Rightarrow> field" where
  "set_row N x r f = (\<lambda>i j. if i = r \<and> 1 \<le> j \<and> j \<le> N then f j else x i j)"

text \<open>\<^verbatim>\<open>x[1:-1, c] = f\<close>: one column, the rows \<open>1..N\<close>.\<close>

definition set_col :: "nat \<Rightarrow> field \<Rightarrow> nat \<Rightarrow> (nat \<Rightarrow> real) \<Rightarrow> field" where
  "set_col N x c f = (\<lambda>i j. if j = c \<and> 1 \<le> i \<and> i \<le> N then f i else x i j)"

text \<open>\<^verbatim>\<open>x[r, c] = a\<close>.\<close>

definition set_cell :: "field \<Rightarrow> nat \<Rightarrow> nat \<Rightarrow> real \<Rightarrow> field" where
  "set_cell x r c a = (\<lambda>i j. if i = r \<and> j = c then a else x i j)"

text \<open>\<^verbatim>\<open>x[1:-1, 1:-1] = f\<close>: the interior block.\<close>

definition set_interior :: "nat \<Rightarrow> field \<Rightarrow> field \<Rightarrow> field" where
  "set_interior N x f = (\<lambda>i j. if interior N i j then f i j else x i j)"

definition zeros :: field where
  "zeros = (\<lambda>i j. 0)"

section \<open>Boundary rule\<close>

text \<open>
  \<^verbatim>\<open>set_bnd(b, x)\<close>. The three variants write the same eight assignments in the same
  order: the base variant addresses the last two rows and columns as \<^verbatim>\<open>-1\<close> and
  \<^verbatim>\<open>-2\<close>, the other two as \<^verbatim>\<open>N+1\<close> and \<^verbatim>\<open>N\<close>. Each assignment reads the
  array as the assignments before it left it.
\<close>

definition set_bnd :: "nat \<Rightarrow> nat \<Rightarrow> field \<Rightarrow> field" where
  "set_bnd b N x =
    (let x1 = set_row N x 0 (\<lambda>j. if b = 1 then - x 1 j else x 1 j);
         x2 = set_row N x1 (N + 1) (\<lambda>j. if b = 1 then - x1 N j else x1 N j);
         x3 = set_col N x2 0 (\<lambda>i. if b = 2 then - x2 i 1 else x2 i 1);
         x4 = set_col N x3 (N + 1) (\<lambda>i. if b = 2 then - x3 i N else x3 i N);
         x5 = set_cell x4 0 0 (0.5 * (x4 1 0 + x4 0 1));
         x6 = set_cell x5 0 (N + 1) (0.5 * (x5 1 (N + 1) + x5 0 N));
         x7 = set_cell x6 (N + 1) 0 (0.5 * (x6 N 0 + x6 (N + 1) 1));
         x8 = set_cell x7 (N + 1) (N + 1) (0.5 * (x7 N (N + 1) + x7 (N + 1) N))
     in x8)"

section \<open>Source injection\<close>

text \<open>\<^verbatim>\<open>add_source(x, s, dt)\<close>: \<^verbatim>\<open>x += dt * s\<close> on the whole arrays (the base variant
  reads the global \<^verbatim>\<open>DT\<close>).\<close>

definition add_source :: "field \<Rightarrow> field \<Rightarrow> real \<Rightarrow> field" where
  "add_source x s dt = (\<lambda>i j. x i j + dt * s i j)"

section \<open>Errors\<close>

text \<open>
  The exceptions the solver code can raise: a Python float division by zero
  (\<^verbatim>\<open>1.0 / (1 + 4 * a)\<close>, \<^verbatim>\<open>1.0 / c\<close>, \<^verbatim>\<open>1.0 / N\<close>) and an index or a
  boolean mask that does not fit its array.
\<close>

datatype py_error = ZeroDivisionError | IndexError

text \<open>Sequencing of statements that may raise.\<close>

definition and_then :: "py_error + 'a \<Rightarrow> ('a \<Rightarrow> py_error + 'b) \<Rightarrow> py_error + 'b" where
  "and_then r f = (case r of Inl e \<Rightarrow> Inl e | Inr a \<Rightarrow> f a)"

section \<open>Scalar helpers\<close>

text \<open>\<^verbatim>\<open>np.clip(x, lo, hi)\<close> is \<^verbatim>\<open>minimum(maximum(x, lo), hi)\<close>.\<close>

definition clip :: "real \<Rightarrow> real \<Rightarrow> real \<Rightarrow> real" where
  "clip x lo hi = min (max x lo) hi"

text \<open>\<^verbatim>\<open>clamp(x, lo, hi)\<close> of the pro variant:
  \<^verbatim>\<open>lo if x < lo else hi if x > hi else x\<close>.\<close>

definition clamp :: "int \<Rightarrow> int \<Rightarrow> int \<Rightarrow> int" where
  "clamp x lo hi = (if x < lo then lo else if x > hi then hi else x)"

text \<open>\<^verbatim>\<open>x.astype(np.int32)\<close> truncates towards zero; \<^verbatim>\<open>np.floor(x).astype(int)\<close>
  rounds down.\<close>

definition trunc :: "real \<Rightarrow> int" where
  "trunc x = (if 0 \<le> x then \<lfloor>x\<rfloor> else \<lceil>x\<rceil>)"

definition floor_int :: "real \<Rightarrow> int" where
  "floor_int x = \<lfloor>x\<rfloor>"

section \<open>Semi-Lagrangian advection\<close>

text \<open>
  The backtraced and clamped sample coordinates of cell \<open>(i, j)\<close>:
  \<^verbatim>\<open>x = I - dt * N * u[1:-1, 1:-1]\<close>, \<^verbatim>\<open>np.clip(x, 0.5, N + 0.5)\<close>, and the same for
  \<^verbatim>\<open>y\<close> with \<^verbatim>\<open>J\<close> and \<^verbatim>\<open>v\<close>.
\<close>

definition backtrace_x :: "nat \<Rightarrow> real \<Rightarrow> field \<Rightarrow> nat \<Rightarrow> nat \<Rightarrow> real" where
  "backtrace_x N dt u i j = clip (real i - dt * real N * u i j) 0.5 (real N + 0.5)"

definition backtrace_y :: "nat \<Rightarrow> real \<Rightarrow> field \<Rightarrow> nat \<Rightarrow> nat \<Rightarrow> real" where
  "backtrace_y N dt v i j = clip (real j - dt * real N * v i j) 0.5 (real N + 0.5)"

text \<open>
  The bilinear sample of \<^verbatim>\<open>d0\<close> at \<open>(x, y)\<close> with lower indices \<open>i0\<close>, \<open>j0\<close>:
  \<^verbatim>\<open>s0 * (t0 * d0[i0, j0] + t1 * d0[i0, j1]) + s1 * (t0 * d0[i1, j0] + t1 * d0[i1, j1])\<close>.
  The indices are integers in the source; they are read as array indices through
  \<^const>\<open>nat\<close>, which is the cell the source reads whenever the index lies in
  \<open>0..N+1\<close>.
\<close>

definition bilinear :: "field \<Rightarrow> real \<Rightarrow> real \<Rightarrow> int \<Rightarrow> int \<Rightarrow> real" where
  "bilinear d0 x y i0 j0 =
    (let i1 = i0 + 1; j1 = j0 + 1;
         s1 = x - real_of_int i0; s0 = 1 - s1;
         t1 = y - real_of_int j0; t0 = 1 - t1
     in s0 * (t0 * d0 (nat i0) (nat j0) + t1 * d0 (nat i0) (nat j1)) +
        s1 * (t0 * d0 (nat i1) (nat j0) + t1 * d0 (nat i1) (nat j1)))"

text \<open>
  \<^verbatim>\<open>advect(b, d, d0, u, v, dt)\<close>, with the conversion to an integer index as a
  parameter: the pro variant truncates, the base and thinking variants take the floor.
\<close>

definition advect_with ::
  "(real \<Rightarrow> int) \<Rightarrow> nat \<Rightarrow> nat \<Rightarrow> real \<Rightarrow> field \<Rightarrow> field \<Rightarrow> field \<Rightarrow> field \<Rightarrow> field" where
  "advect_with to_int b N dt d d0 u v =
    set_bnd b N (set_interior N d (\<lambda>i j.
      bilinear d0 (backtrace_x N dt u i j) (backtrace_y N dt v i j)
        (to_int (backtrace_x N dt u i j)) (to_int (backtrace_y N dt v i j))))"

definition advect :: "nat \<Rightarrow> nat \<Rightarrow> real \<Rightarrow> field \<Rightarrow> field \<Rightarrow> field \<Rightarrow> field \<Rightarrow> field" where
  "advect = advect_with trunc"

definition advect_floor ::
  "nat \<Rightarrow> nat \<Rightarrow> real \<Rightarrow> field \<Rightarrow> field \<Rightarrow> field \<Rightarrow> field \<Rightarrow> field" where
  "advect_floor = advect_with floor_int"

section \<open>Diffusion\<close>

text \<open>The sum of the four axis neighbours of cell \<open>(i, j)\<close>, as the slices
  \<^verbatim>\<open>x[0:-2, 1:-1] + x[2:, 1:-1] + x[1:-1, 0:-2] + x[1:-1, 2:]\<close> give it.\<close>

definition neighbours :: "field \<Rightarrow> nat \<Rightarrow> nat \<Rightarrow> real" where
  "neighbours x i j = x (i - 1) j + x (i + 1) j + x i (j - 1) + x i (j + 1)"

text \<open>One sweep of the pro variant's \<^verbatim>\<open>diffuse\<close>:
  \<^verbatim>\<open>x[1:-1, 1:-1] = c * (x0[1:-1, 1:-1] + a * (...))\<close>, then \<^verbatim>\<open>set_bnd(b, x)\<close>.\<close>

definition diffuse_sweep :: "nat \<Rightarrow> nat \<Rightarrow> real \<Rightarrow> real \<Rightarrow> field \<Rightarrow> field \<Rightarrow> field" where
  "diffuse_sweep b N a c x0 x =
    set_bnd b N (set_interior N x (\<lambda>i j. c * (x0 i j + a * neighbours x i j)))"

text \<open>\<^verbatim>\<open>for _ in range(iters)\<close>.\<close>

primrec repeat :: "nat \<Rightarrow> ('a \<Rightarrow> 'a) \<Rightarrow> 'a \<Rightarrow> 'a" where
  "repeat 0 f x = x"
| "repeat (Suc k) f x = repeat k f (f x)"

text \<open>
  \<^verbatim>\<open>Fluid.diffuse(b, x, x0, diff, dt)\<close>. \<^verbatim>\<open>c = 1.0 / (1 + 4 * a)\<close> is a division of
  Python floats, which raises when the divisor is zero.
\<close>

definition diffuse ::
  "nat \<Rightarrow> nat \<Rightarrow> nat \<Rightarrow> field \<Rightarrow> field \<Rightarrow> real \<Rightarrow> real \<Rightarrow> py_error + field" where
  "diffuse b N iters x x0 diff dt =
    (let a = dt * diff * real N * real N
     in if 1 + 4 * a = 0 then Inl ZeroDivisionError
        else Inr (repeat iters (diffuse_sweep b N a (1 / (1 + 4 * a)) x0) x))"

text \<open>
  The base variant's \<^verbatim>\<open>diffuse(b, x, x0, diff)\<close> divides the array by \<^verbatim>\<open>1 + 4 * a\<close>
  in every sweep (an array division, which does not raise) and reads the globals
  \<^verbatim>\<open>DT\<close>, \<^verbatim>\<open>N\<close> and \<^verbatim>\<open>ITER\<close>, parameters here.
\<close>

definition diffuse_base_sweep :: "nat \<Rightarrow> nat \<Rightarrow> real \<Rightarrow> field \<Rightarrow> field \<Rightarrow> field" where
  "diffuse_base_sweep b N a x0 x =
    set_bnd b N (set_interior N x (\<lambda>i j. (x0 i j + a * neighbours x i j) / (1 + 4 * a)))"

definition diffuse_base ::
  "nat \<Rightarrow> nat \<Rightarrow> nat \<Rightarrow> field \<Rightarrow> field \<Rightarrow> real \<Rightarrow> real \<Rightarrow> field" where
  "diffuse_base b N iters x x0 diff dt =
    repeat iters (diffuse_base_sweep b N (dt * diff * real N * real N) x0) x"

section \<open>Projection\<close>

text \<open>One Jacobi sweep of the pressure solve of \<^verbatim>\<open>Fluid.project\<close>.\<close>

definition pressure_sweep :: "nat \<Rightarrow> field \<Rightarrow> field \<Rightarrow> field" where
  "pressure_sweep N dv p =
    set_bnd 0 N (set_interior N p (\<lambda>i j. 0.25 * (dv i j + neighbours p i j)))"

text \<open>\<^verbatim>\<open>Fluid.project(u, v, p, div)\<close>; the result is the four arrays
  \<open>(u, v, p, div)\<close> as the call leaves them.\<close>

definition project ::
  "nat \<Rightarrow> nat \<Rightarrow> field \<Rightarrow> field \<Rightarrow> field \<Rightarrow> field \<Rightarrow> field \<times> field \<times> field \<times> field" where
  "project N iters u v p dv =
    (let dv1 = set_interior N dv (\<lambda>i j.
                 - 0.5 * (u (i + 1) j - u (i - 1) j + v i (j + 1) - v i (j - 1)) / real N);
         p1 = zeros;
         dv2 = set_bnd 0 N dv1;
         p2 = set_bnd 0 N p1;
         p3 = repeat iters (pressure_sweep N dv2) p2;
         u1 = set_interior N u (\<lambda>i j. u i j - 0.5 * real N * (p3 (i + 1) j - p3 (i - 1) j));
         v1 = set_interior N v (\<lambda>i j. v i j - 0.5 * real N * (p3 i (j + 1) - p3 i (j - 1)))
     in (set_bnd 1 N u1, set_bnd 2 N v1, p3, dv2))"

section \<open>Forces\<close>

text \<open>\<^verbatim>\<open>Fluid.vorticity_confinement(u, v, eps, dt)\<close>; the result is \<open>(u, v)\<close>.\<close>

definition vorticity_confinement ::
  "nat \<Rightarrow> field \<Rightarrow> field \<Rightarrow> real \<Rightarrow> real \<Rightarrow> field \<times> field" where
  "vorticity_confinement N u v eps dt =
    (if eps \<le> 0 then (u, v)
     else
      let curl = set_interior N zeros (\<lambda>i j.
                   ((v (i + 1) j - v (i - 1) j) - (u i (j + 1) - u i (j - 1))) * 0.5);
          absw = (\<lambda>i j. \<bar>curl i j\<bar>);
          Nx0 = set_interior N zeros (\<lambda>i j. (absw (i + 1) j - absw (i - 1) j) * 0.5);
          Ny0 = set_interior N zeros (\<lambda>i j. (absw i (j + 1) - absw i (j - 1)) * 0.5);
          mag = (\<lambda>i j. sqrt (Nx0 i j * Nx0 i j + Ny0 i j * Ny0 i j) + 1 / 1000000);
          Nx = (\<lambda>i j. Nx0 i j / mag i j);
          Ny = (\<lambda>i j. Ny0 i j / mag i j);
          Fx = (\<lambda>i j. eps * Ny i j * curl i j);
          Fy = (\<lambda>i j. - eps * Nx i j * curl i j);
          u1 = set_interior N u (\<lambda>i j. u i j + dt * Fx i j);
          v1 = set_interior N v (\<lambda>i j. v i j + dt * Fy i j)
      in (set_bnd 1 N u1, set_bnd 2 N v1))"

text \<open>\<^verbatim>\<open>Fluid.buoyancy_force(v, dens, coeff, dt)\<close>.\<close>

definition buoyancy_force :: "nat \<Rightarrow> field \<Rightarrow> field \<Rightarrow> real \<Rightarrow> real \<Rightarrow> field" where
  "buoyancy_force N v dens coeff dt =
    (if coeff \<le> 0 then v
     else set_bnd 2 N (set_interior N v (\<lambda>i j. v i j + dt * coeff * dens i j)))"

section \<open>The state of the pro variant and its step\<close>

record params =
  pN :: nat
  pdiff :: real
  pvisc :: real
  piters :: nat
  pbuoyancy :: real
  pvorticity :: real

record fluid =
  f_u :: field
  f_v :: field
  f_u0 :: field
  f_v0 :: field
  f_dens :: field
  f_dens0 :: field
  f_p :: field
  f_div :: field

text \<open>\<^verbatim>\<open>Fluid.__init__\<close> and \<^verbatim>\<open>Fluid.clear\<close>: every array zero.\<close>

definition zero_fluid :: fluid where
  "zero_fluid = \<lparr>f_u = zeros, f_v = zeros, f_u0 = zeros, f_v0 = zeros,
                 f_dens = zeros, f_dens0 = zeros, f_p = zeros, f_div = zeros\<rparr>"

text \<open>\<^verbatim>\<open>self.project(self.u, self.v, self.p, self.div)\<close>.\<close>

definition project_state :: "params \<Rightarrow> fluid \<Rightarrow> fluid" where
  "project_state P s =
    (case project (pN P) (piters P) (f_u s) (f_v s) (f_p s) (f_div s) of
       (u1, v1, p1, dv1) \<Rightarrow> s\<lparr>f_u := u1, f_v := v1, f_p := p1, f_div := dv1\<rparr>)"

text \<open>
  The phases of the velocity step of the pro variant, each as a function of the state, in
  the words of the specification. Source injection: apply the queued sources to \<open>u\<close>, \<open>v\<close>
  from \<open>u0\<close>, \<open>v0\<close> and zero the source buffers.
\<close>

definition sources_state :: "params \<Rightarrow> real \<Rightarrow> fluid \<Rightarrow> fluid" where
  "sources_state P dt s =
    s\<lparr>f_u := add_source (f_u s) (f_u0 s) dt, f_v := add_source (f_v s) (f_v0 s) dt,
      f_u0 := zeros, f_v0 := zeros\<rparr>"

text \<open>Buoyancy on the vertical velocity.\<close>

definition buoyancy_state :: "params \<Rightarrow> real \<Rightarrow> fluid \<Rightarrow> fluid" where
  "buoyancy_state P dt s =
    s\<lparr>f_v := buoyancy_force (pN P) (f_v s) (f_dens s) (pbuoyancy P) dt\<rparr>"

text \<open>Vorticity confinement.\<close>

definition vorticity_state :: "params \<Rightarrow> real \<Rightarrow> fluid \<Rightarrow> fluid" where
  "vorticity_state P dt s =
    (case vorticity_confinement (pN P) (f_u s) (f_v s) (pvorticity P) dt of
       (u1, v1) \<Rightarrow> s\<lparr>f_u := u1, f_v := v1\<rparr>)"

text \<open>Diffusion: copy \<open>u\<close>, \<open>v\<close> to \<open>u0\<close>, \<open>v0\<close> and diffuse \<open>u\<close>, \<open>v\<close> in place with
  \<open>u0\<close>, \<open>v0\<close> as the reference.\<close>

definition diffuse_state :: "params \<Rightarrow> real \<Rightarrow> fluid \<Rightarrow> py_error + fluid" where
  "diffuse_state P dt s =
    and_then (diffuse 1 (pN P) (piters P) (f_u s) (f_u s) (pvisc P) dt) (\<lambda>u1.
    and_then (diffuse 2 (pN P) (piters P) (f_v s) (f_v s) (pvisc P) dt) (\<lambda>v1.
    Inr (s\<lparr>f_u := u1, f_v := v1, f_u0 := f_u s, f_v0 := f_v s\<rparr>)))"

text \<open>Advection: copy \<open>u\<close>, \<open>v\<close> to \<open>u0\<close>, \<open>v0\<close> and advect \<open>u\<close>, \<open>v\<close> along that same
  velocity field.\<close>

definition advect_state :: "params \<Rightarrow> real \<Rightarrow> fluid \<Rightarrow> fluid" where
  "advect_state P dt s =
    s\<lparr>f_u := advect 1 (pN P) dt (f_u s) (f_u s) (f_u s) (f_v s),
      f_v := advect 2 (pN P) dt (f_v s) (f_v s) (f_u s) (f_v s),
      f_u0 := f_u s, f_v0 := f_v s\<rparr>"

text \<open>\<^verbatim>\<open>Fluid.vel_step(dt)\<close>, statement by statement.\<close>

definition vel_step :: "params \<Rightarrow> real \<Rightarrow> fluid \<Rightarrow> py_error + fluid" where
  "vel_step P dt s =
    (let N = pN P;
         s1 = s\<lparr>f_u := add_source (f_u s) (f_u0 s) dt\<rparr>;
         s2 = s1\<lparr>f_v := add_source (f_v s1) (f_v0 s1) dt\<rparr>;
         s3 = s2\<lparr>f_u0 := zeros\<rparr>;
         s4 = s3\<lparr>f_v0 := zeros\<rparr>;
         s5 = s4\<lparr>f_v := buoyancy_force N (f_v s4) (f_dens s4) (pbuoyancy P) dt\<rparr>;
         s6 = (case vorticity_confinement N (f_u s5) (f_v s5) (pvorticity P) dt of
                 (u1, v1) \<Rightarrow> s5\<lparr>f_u := u1, f_v := v1\<rparr>);
         s7 = s6\<lparr>f_u0 := f_u s6\<rparr>;
         s8 = s7\<lparr>f_v0 := f_v s7\<rparr>
     in case diffuse 1 N (piters P) (f_u s8) (f_u0 s8) (pvisc P) dt of
          Inl e \<Rightarrow> Inl e
        | Inr u9 \<Rightarrow>
         (let s9 = s8\<lparr>f_u := u9\<rparr>
          in case diffuse 2 N (piters P) (f_v s9) (f_v0 s9) (pvisc P) dt of
               Inl e \<Rightarrow> Inl e
             | Inr v10 \<Rightarrow>
              (let s10 = s9\<lparr>f_v := v10\<rparr>;
                   s11 = project_state P s10;
                   s12 = s11\<lparr>f_u0 := f_u s11\<rparr>;
                   s13 = s12\<lparr>f_v0 := f_v s12\<rparr>;
                   s14 = s13\<lparr>f_u := advect 1 N dt (f_u s13) (f_u0 s13) (f_u0 s13) (f_v0 s13)\<rparr>;
                   s15 = s14\<lparr>f_v := advect 2 N dt (f_v s14) (f_v0 s14) (f_u0 s14) (f_v0 s14)\<rparr>
               in Inr (project_state P s15))))"

text \<open>\<^verbatim>\<open>Fluid.dens_step(dt)\<close>.\<close>

definition dens_step :: "params \<Rightarrow> real \<Rightarrow> fluid \<Rightarrow> py_error + fluid" where
  "dens_step P dt s =
    (let N = pN P;
         s1 = s\<lparr>f_dens := add_source (f_dens s) (f_dens0 s) dt\<rparr>;
         s2 = s1\<lparr>f_dens0 := zeros\<rparr>;
         s3 = s2\<lparr>f_dens0 := f_dens s2\<rparr>
     in case diffuse 0 N (piters P) (f_dens s3) (f_dens0 s3) (pdiff P) dt of
          Inl e \<Rightarrow> Inl e
        | Inr d4 \<Rightarrow>
         (let s4 = s3\<lparr>f_dens := d4\<rparr>;
              s5 = s4\<lparr>f_dens0 := f_dens s4\<rparr>
          in Inr (s5\<lparr>f_dens := advect 0 N dt (f_dens s5) (f_dens0 s5) (f_u s5) (f_v s5)\<rparr>)))"

text \<open>\<^verbatim>\<open>Fluid.step(dt)\<close>.\<close>

definition step :: "params \<Rightarrow> real \<Rightarrow> fluid \<Rightarrow> py_error + fluid" where
  "step P dt s = (case vel_step P dt s of Inl e \<Rightarrow> Inl e | Inr s1 \<Rightarrow> dens_step P dt s1)"

text \<open>A caller that calls \<^verbatim>\<open>step\<close> once for each time step of a list, stopping at the
  first exception.\<close>

fun steps :: "params \<Rightarrow> real list \<Rightarrow> fluid \<Rightarrow> py_error + fluid" where
  "steps P [] s = Inr s"
| "steps P (dt # dts) s = (case step P dt s of Inl e \<Rightarrow> Inl e | Inr s1 \<Rightarrow> steps P dts s1)"

section \<open>Brushes of the pro variant\<close>

text \<open>
  \<^verbatim>\<open>Fluid.add_density_brush(i, j, amount, radius)\<close>. \<^verbatim>\<open>range(a, b + 1)\<close> is the integer
  interval \<open>[a..b]\<close>; the cell indices of the two loops lie in \<open>1..N\<close>.
\<close>

definition brush_cell :: "int \<Rightarrow> int \<Rightarrow> int \<Rightarrow> real \<Rightarrow> int \<Rightarrow> int \<Rightarrow> field \<Rightarrow> field" where
  "brush_cell i j r amount ii jj d =
    (if (ii - i) ^ 2 + (jj - j) ^ 2 \<le> r * r
     then set_cell d (nat ii) (nat jj) (d (nat ii) (nat jj) + amount) else d)"

definition add_density_brush :: "params \<Rightarrow> fluid \<Rightarrow> int \<Rightarrow> int \<Rightarrow> real \<Rightarrow> int \<Rightarrow> fluid" where
  "add_density_brush P s i0 j0 amount radius =
    (let N = int (pN P);
         i = clamp i0 1 N;
         j = clamp j0 1 N;
         r = max 1 radius
     in s\<lparr>f_dens0 :=
          fold (\<lambda>ii. fold (brush_cell i j r amount ii) [max 1 (j - r) .. min N (j + r)])
            [max 1 (i - r) .. min N (i + r)] (f_dens0 s)\<rparr>)"

section \<open>The thinking variant\<close>

text \<open>\<^verbatim>\<open>x[r0:r1, c0:c1] = f\<close> with bounds inside the array.\<close>

definition set_block :: "field \<Rightarrow> nat \<Rightarrow> nat \<Rightarrow> nat \<Rightarrow> nat \<Rightarrow> field \<Rightarrow> field" where
  "set_block x r0 r1 c0 c1 f =
    (\<lambda>i j. if r0 \<le> i \<and> i < r1 \<and> c0 \<le> j \<and> j < c1 then f i j else x i j)"

text \<open>One sweep of \<^verbatim>\<open>lin_solve\<close>.\<close>

definition lin_solve_sweep :: "nat \<Rightarrow> nat \<Rightarrow> real \<Rightarrow> real \<Rightarrow> field \<Rightarrow> field \<Rightarrow> field" where
  "lin_solve_sweep b N a inv_c x0 x =
    set_bnd b N (set_interior N x (\<lambda>i j. (x0 i j + a * neighbours x i j) * inv_c))"

text \<open>\<^verbatim>\<open>lin_solve(b, x, x0, a, c, iters=20)\<close>; \<^verbatim>\<open>inv_c = 1.0 / c\<close> raises for \<open>c = 0\<close>.\<close>

definition lin_solve ::
  "nat \<Rightarrow> nat \<Rightarrow> field \<Rightarrow> field \<Rightarrow> real \<Rightarrow> real \<Rightarrow> nat \<Rightarrow> py_error + field" where
  "lin_solve b N x x0 a c iters =
    (if c = 0 then Inl ZeroDivisionError
     else Inr (repeat iters (lin_solve_sweep b N a (1 / c) x0) x))"

text \<open>\<^verbatim>\<open>diffuse(b, x, x0, diff, dt)\<close> of the thinking variant: always 20 sweeps.\<close>

definition diffuse_thinking ::
  "nat \<Rightarrow> nat \<Rightarrow> field \<Rightarrow> field \<Rightarrow> real \<Rightarrow> real \<Rightarrow> py_error + field" where
  "diffuse_thinking b N x x0 diff dt =
    (let a = dt * diff * real N * real N in lin_solve b N x x0 a (1 + 4 * a) 20)"

text \<open>\<^verbatim>\<open>project(u, v, p, div)\<close> of the thinking variant; \<^verbatim>\<open>h = 1.0 / N\<close> raises for
  \<open>N = 0\<close>.\<close>

definition project_thinking ::
  "nat \<Rightarrow> field \<Rightarrow> field \<Rightarrow> field \<Rightarrow> field \<Rightarrow> py_error + field \<times> field \<times> field \<times> field" where
  "project_thinking N u v p dv =
    (if N = 0 then Inl ZeroDivisionError
     else
      let h = 1 / real N;
          dv1 = set_interior N dv (\<lambda>i j.
                  - 0.5 * h * (u (i + 1) j - u (i - 1) j + v i (j + 1) - v i (j - 1)));
          p1 = zeros;
          dv2 = set_bnd 0 N dv1;
          p2 = set_bnd 0 N p1
      in case lin_solve 0 N p2 dv2 1 4 20 of
           Inl e \<Rightarrow> Inl e
         | Inr p3 \<Rightarrow>
            (let u1 = set_interior N u (\<lambda>i j. u i j - 0.5 * (p3 (i + 1) j - p3 (i - 1) j) / h);
                 v1 = set_interior N v (\<lambda>i j. v i j - 0.5 * (p3 i (j + 1) - p3 i (j - 1)) / h)
             in Inr (set_bnd 1 N u1, set_bnd 2 N v1, p3, dv2)))"

text \<open>
  \<^verbatim>\<open>vorticity_confinement(u, v, eps=0.002)\<close> of the thinking variant. The source holds
  the vorticity \<^verbatim>\<open>w\<close> and \<^verbatim>\<open>absw\<close> as \<open>N \<times> N\<close> arrays, whose entry \<open>[r, c]\<close> belongs to
  cell \<open>(r+1, c+1)\<close>; here they are indexed by the cell. The reads \<^verbatim>\<open>absw[1, :]\<close> and
  \<^verbatim>\<open>absw[-2, :]\<close> need two rows, so the call raises for \<open>N < 2\<close>.
\<close>

definition vorticity_confinement_thinking ::
  "nat \<Rightarrow> field \<Rightarrow> field \<Rightarrow> real \<Rightarrow> py_error + field \<times> field" where
  "vorticity_confinement_thinking N u v eps =
    (if N < 2 then Inl IndexError
     else
      let w = (\<lambda>i j. (v (i + 1) j - v (i - 1) j - (u i (j + 1) - u i (j - 1))) * 0.5);
          absw = (\<lambda>i j. \<bar>w i j\<bar>);
          gx0 = set_block zeros 2 N 1 (N + 1) (\<lambda>i j. 0.5 * (absw (i + 1) j - absw (i - 1) j));
          gy0 = set_block zeros 1 (N + 1) 2 N (\<lambda>i j. 0.5 * (absw i (j + 1) - absw i (j - 1)));
          gx1 = set_row N gx0 1 (\<lambda>j. absw 2 j - absw 1 j);
          gx2 = set_row N gx1 (N + 1) (\<lambda>j. absw N j - absw (N - 1) j);
          gy1 = set_col N gy0 1 (\<lambda>i. absw i 2 - absw i 1);
          gy2 = set_col N gy1 (N + 1) (\<lambda>i. absw i N - absw i (N - 1));
          mag = (\<lambda>i j. sqrt ((gx2 i j) ^ 2 + (gy2 i j) ^ 2) + 1 / 1000000000000);
          Nx = (\<lambda>i j. gx2 i j / mag i j);
          Ny = (\<lambda>i j. gy2 i j / mag i j);
          u1 = set_interior N u (\<lambda>i j. u i j + eps * (Ny i j * w i j));
          v1 = set_interior N v (\<lambda>i j. v i j + eps * (- Nx i j * w i j))
      in Inr (set_bnd 1 N u1, set_bnd 2 N v1))"

record tparams =
  tN :: nat
  tdt :: real
  tdiff :: real
  tvisc :: real
  tvorticity :: bool

text \<open>
  The phases of the velocity part of \<^verbatim>\<open>Fluid2D.step\<close>, each as a function of the
  state: projection, \<^verbatim>\<open>project(self.u, self.v, self.p, self.div)\<close>.
\<close>

definition project_thinking_state :: "tparams \<Rightarrow> fluid \<Rightarrow> py_error + fluid" where
  "project_thinking_state P s =
    (case project_thinking (tN P) (f_u s) (f_v s) (f_p s) (f_div s) of
       Inl e \<Rightarrow> Inl e
     | Inr (u1, v1, p1, dv1) \<Rightarrow> Inr (s\<lparr>f_u := u1, f_v := v1, f_p := p1, f_div := dv1\<rparr>))"

text \<open>\<^verbatim>\<open>if self.vorticity: vorticity_confinement(self.u, self.v)\<close>.\<close>

definition vorticity_thinking_state :: "tparams \<Rightarrow> fluid \<Rightarrow> py_error + fluid" where
  "vorticity_thinking_state P s =
    (if tvorticity P
     then case vorticity_confinement_thinking (tN P) (f_u s) (f_v s) (2 / 1000) of
            Inl e \<Rightarrow> Inl e
          | Inr (u1, v1) \<Rightarrow> Inr (s\<lparr>f_u := u1, f_v := v1\<rparr>)
     else Inr s)"

text \<open>The two \<^verbatim>\<open>add_source\<close> statements of \<^verbatim>\<open>Fluid2D.step\<close>, each followed by
  \<^verbatim>\<open>fill(0.0)\<close> of its source array.\<close>

definition sources_thinking_state :: "tparams \<Rightarrow> fluid \<Rightarrow> fluid" where
  "sources_thinking_state P s =
    (let s1 = s\<lparr>f_u := add_source (f_u s) (f_u0 s) (tdt P)\<rparr>;
         s2 = s1\<lparr>f_u0 := zeros\<rparr>;
         s3 = s2\<lparr>f_v := add_source (f_v s2) (f_v0 s2) (tdt P)\<rparr>
     in s3\<lparr>f_v0 := zeros\<rparr>)"

text \<open>The two \<^verbatim>\<open>diffuse\<close> calls, which write into \<^verbatim>\<open>u0\<close> and \<^verbatim>\<open>v0\<close>, and the two
  swaps after them.\<close>

definition diffuse_thinking_state :: "tparams \<Rightarrow> fluid \<Rightarrow> py_error + fluid" where
  "diffuse_thinking_state P s =
    (case diffuse_thinking 1 (tN P) (f_u0 s) (f_u s) (tvisc P) (tdt P) of
       Inl e \<Rightarrow> Inl e
     | Inr x1 \<Rightarrow>
        (let s1 = s\<lparr>f_u0 := x1\<rparr>
         in case diffuse_thinking 2 (tN P) (f_v0 s1) (f_v s1) (tvisc P) (tdt P) of
              Inl e \<Rightarrow> Inl e
            | Inr y1 \<Rightarrow>
               (let s2 = s1\<lparr>f_v0 := y1\<rparr>;
                    s3 = s2\<lparr>f_u := f_u0 s2, f_u0 := f_u s2\<rparr>
                in Inr (s3\<lparr>f_v := f_v0 s3, f_v0 := f_v s3\<rparr>))))"

text \<open>The two \<^verbatim>\<open>advect\<close> calls, which write into \<^verbatim>\<open>u0\<close> and \<^verbatim>\<open>v0\<close>, and the two
  swaps after them.\<close>

definition advect_thinking_state :: "tparams \<Rightarrow> fluid \<Rightarrow> fluid" where
  "advect_thinking_state P s =
    (let s1 = s\<lparr>f_u0 := advect_floor 1 (tN P) (tdt P) (f_u0 s) (f_u s) (f_u s) (f_v s)\<rparr>;
         s2 = s1\<lparr>f_v0 := advect_floor 2 (tN P) (tdt P) (f_v0 s1) (f_v s1) (f_u s1) (f_v s1)\<rparr>;
         s3 = s2\<lparr>f_u := f_u0 s2, f_u0 := f_u s2\<rparr>
     in s3\<lparr>f_v := f_v0 s3, f_v0 := f_v s3\<rparr>)"

text \<open>The velocity part of \<^verbatim>\<open>Fluid2D.step\<close> (the statements under
  \<^verbatim>\<open># Velocity step\<close>), in the order of the source.\<close>

definition vel_step_thinking :: "tparams \<Rightarrow> fluid \<Rightarrow> py_error + fluid" where
  "vel_step_thinking P s =
    (let N = tN P; dt = tdt P;
         s1 = s\<lparr>f_u := add_source (f_u s) (f_u0 s) dt\<rparr>;
         s2 = s1\<lparr>f_u0 := zeros\<rparr>;
         s3 = s2\<lparr>f_v := add_source (f_v s2) (f_v0 s2) dt\<rparr>;
         s4 = s3\<lparr>f_v0 := zeros\<rparr>
     in case diffuse_thinking 1 N (f_u0 s4) (f_u s4) (tvisc P) dt of
          Inl e \<Rightarrow> Inl e
        | Inr x5 \<Rightarrow>
     (let s5 = s4\<lparr>f_u0 := x5\<rparr>
      in case diffuse_thinking 2 N (f_v0 s5) (f_v s5) (tvisc P) dt of
          Inl e \<Rightarrow> Inl e
        | Inr y6 \<Rightarrow>
     (let s6 = s5\<lparr>f_v0 := y6\<rparr>;
          s7 = s6\<lparr>f_u := f_u0 s6, f_u0 := f_u s6\<rparr>;
          s8 = s7\<lparr>f_v := f_v0 s7, f_v0 := f_v s7\<rparr>
      in case project_thinking N (f_u s8) (f_v s8) (f_p s8) (f_div s8) of
          Inl e \<Rightarrow> Inl e
        | Inr (u9, v9, p9, dv9) \<Rightarrow>
     (let s9 = s8\<lparr>f_u := u9, f_v := v9, f_p := p9, f_div := dv9\<rparr>;
          s10 = s9\<lparr>f_u0 := advect_floor 1 N dt (f_u0 s9) (f_u s9) (f_u s9) (f_v s9)\<rparr>;
          s11 = s10\<lparr>f_v0 := advect_floor 2 N dt (f_v0 s10) (f_v s10) (f_u s10) (f_v s10)\<rparr>;
          s12 = s11\<lparr>f_u := f_u0 s11, f_u0 := f_u s11\<rparr>;
          s13 = s12\<lparr>f_v := f_v0 s12, f_v0 := f_v s12\<rparr>
      in case (if tvorticity P
               then case vorticity_confinement_thinking N (f_u s13) (f_v s13) (2 / 1000) of
                      Inl e \<Rightarrow> Inl e
                    | Inr (u14, v14) \<Rightarrow> Inr (s13\<lparr>f_u := u14, f_v := v14\<rparr>)
               else Inr s13) of
          Inl e \<Rightarrow> Inl e
        | Inr s14 \<Rightarrow>
     (case project_thinking N (f_u s14) (f_v s14) (f_p s14) (f_div s14) of
          Inl e \<Rightarrow> Inl e
        | Inr (u15, v15, p15, dv15) \<Rightarrow>
            Inr (s14\<lparr>f_u := u15, f_v := v15, f_p := p15, f_div := dv15\<rparr>))))))"

text \<open>The density part of \<^verbatim>\<open>Fluid2D.step\<close> (the statements under
  \<^verbatim>\<open># Density step\<close>).\<close>

definition dens_step_thinking :: "tparams \<Rightarrow> fluid \<Rightarrow> py_error + fluid" where
  "dens_step_thinking P s =
    (let s1 = s\<lparr>f_dens := add_source (f_dens s) (f_dens0 s) (tdt P)\<rparr>;
         s2 = s1\<lparr>f_dens0 := zeros\<rparr>
     in case diffuse_thinking 0 (tN P) (f_dens0 s2) (f_dens s2) (tdiff P) (tdt P) of
          Inl e \<Rightarrow> Inl e
        | Inr d1 \<Rightarrow>
           (let s3 = s2\<lparr>f_dens0 := d1\<rparr>;
                s4 = s3\<lparr>f_dens := f_dens0 s3, f_dens0 := f_dens s3\<rparr>;
                s5 = s4\<lparr>f_dens0 :=
                       advect_floor 0 (tN P) (tdt P) (f_dens0 s4) (f_dens s4) (f_u s4) (f_v s4)\<rparr>
            in Inr (s5\<lparr>f_dens := f_dens0 s5, f_dens0 := f_dens s5\<rparr>)))"

text \<open>\<^verbatim>\<open>Fluid2D.step()\<close>.\<close>

definition step_thinking :: "tparams \<Rightarrow> fluid \<Rightarrow> py_error + fluid" where
  "step_thinking P s = and_then (vel_step_thinking P s) (dens_step_thinking P)"

text \<open>\<open>n\<close> calls of \<^verbatim>\<open>step()\<close>, stopping at the first exception.\<close>

primrec steps_thinking :: "tparams \<Rightarrow> nat \<Rightarrow> fluid \<Rightarrow> py_error + fluid" where
  "steps_thinking P 0 s = Inr s"
| "steps_thinking P (Suc n) s = and_then (step_thinking P s) (steps_thinking P n)"

text \<open>
  \<^verbatim>\<open>Fluid2D.add_density_splat(x, y, amount, radius)\<close> for integer \<open>x\<close>, \<open>y\<close> and a
  radius \<open>rr \<ge> 0\<close>. The mask has shape \<open>(2 rr + 1, 2 rr + 1)\<close>; the slice
  \<^verbatim>\<open>d0[cx-rr:cx+rr+1, cy-rr:cy+rr+1]\<close> has that shape only when it lies inside the
  array, and the boolean index raises otherwise.
\<close>

definition add_density_splat :: "tparams \<Rightarrow> fluid \<Rightarrow> int \<Rightarrow> int \<Rightarrow> real \<Rightarrow> nat \<Rightarrow> py_error + fluid" where
  "add_density_splat P s x y amount rr =
    (let N = tN P;
         cx = nat \<lfloor>clip (real_of_int x) 1 (real N)\<rfloor>;
         cy = nat \<lfloor>clip (real_of_int y) 1 (real N)\<rfloor>
     in if rr \<le> cx \<and> cx + rr \<le> N + 1 \<and> rr \<le> cy \<and> cy + rr \<le> N + 1
        then Inr (s\<lparr>f_dens0 := (\<lambda>i j.
               if cx \<le> i + rr \<and> i \<le> cx + rr \<and> cy \<le> j + rr \<and> j \<le> cy + rr \<and>
                  (int i - int cx) ^ 2 + (int j - int cy) ^ 2 \<le> (int rr) ^ 2
               then f_dens0 s i j + amount else f_dens0 s i j)\<rparr>)
        else Inl IndexError)"

section \<open>Sample indices of the advection over float values\<close>

text \<open>
  The arrays of the source hold floats. For the index computation of \<^verbatim>\<open>advect\<close> a float
  is a number, an infinity or NaN; rounding and overflow of finite values are not
  modelled.
\<close>

datatype fval = Num real | PInf | NInf | NaN

text \<open>The product of two floats; NaN propagates and \<open>0 * inf\<close> is NaN.\<close>

fun fmul :: "fval \<Rightarrow> fval \<Rightarrow> fval" where
  "fmul (Num a) (Num b) = Num (a * b)"
| "fmul NaN y = NaN"
| "fmul x NaN = NaN"
| "fmul (Num a) PInf = (if 0 < a then PInf else if a < 0 then NInf else NaN)"
| "fmul (Num a) NInf = (if 0 < a then NInf else if a < 0 then PInf else NaN)"
| "fmul PInf (Num b) = (if 0 < b then PInf else if b < 0 then NInf else NaN)"
| "fmul NInf (Num b) = (if 0 < b then NInf else if b < 0 then PInf else NaN)"
| "fmul PInf PInf = PInf"
| "fmul PInf NInf = NInf"
| "fmul NInf PInf = NInf"
| "fmul NInf NInf = PInf"

text \<open>The difference of two floats; NaN propagates and \<open>inf - inf\<close> is NaN.\<close>

fun fsub :: "fval \<Rightarrow> fval \<Rightarrow> fval" where
  "fsub (Num a) (Num b) = Num (a - b)"
| "fsub NaN y = NaN"
| "fsub x NaN = NaN"
| "fsub PInf PInf = NaN"
| "fsub NInf NInf = NaN"
| "fsub PInf y = PInf"
| "fsub NInf y = NInf"
| "fsub (Num a) PInf = NInf"
| "fsub (Num a) NInf = PInf"

text \<open>\<^verbatim>\<open>np.clip(x, lo, hi)\<close> on a float, \<^verbatim>\<open>minimum(maximum(x, lo), hi)\<close> with finite bounds:
  NaN passes unchanged.\<close>

fun fclip :: "fval \<Rightarrow> real \<Rightarrow> real \<Rightarrow> fval" where
  "fclip (Num x) lo hi = Num (clip x lo hi)"
| "fclip PInf lo hi = Num hi"
| "fclip NInf lo hi = Num (min lo hi)"
| "fclip NaN lo hi = NaN"

text \<open>
  The clamped backtraced coordinate of one axis: \<^verbatim>\<open>I - dt * N * u[1:-1, 1:-1]\<close> (the base
  and thinking variants compute \<^verbatim>\<open>dt0 = dt * N\<close> first), then
  \<^verbatim>\<open>np.clip(x, 0.5, N + 0.5)\<close>; \<open>k\<close> is the row for \<open>x\<close> and the column for \<open>y\<close>, \<open>vel\<close> the
  value of \<open>u\<close> or \<open>v\<close> in the cell.
\<close>

definition float_backtrace :: "nat \<Rightarrow> fval \<Rightarrow> fval \<Rightarrow> nat \<Rightarrow> fval" where
  "float_backtrace N dt vel k =
    fclip (fsub (Num (real k)) (fmul (fmul dt (Num (real N))) vel)) 0.5 (real N + 0.5)"

text \<open>
  The cast to an integer index, \<^verbatim>\<open>x.astype(np.int32)\<close> or \<^verbatim>\<open>np.floor(x).astype(int)\<close>: a
  number is converted by \<open>to_int\<close>; NumPy casts NaN to the least value of the integer
  type, \<open>bad\<close> here.
\<close>

fun to_index :: "(real \<Rightarrow> int) \<Rightarrow> int \<Rightarrow> fval \<Rightarrow> int" where
  "to_index to_int bad (Num x) = to_int x"
| "to_index to_int bad x = bad"

definition int32_min :: int where
  "int32_min = - 2147483648"

definition int64_min :: int where
  "int64_min = - 9223372036854775808"

text \<open>An integer index into an axis of length \<open>len\<close>: a negative index counts from the
  end, an index outside \<open>[-len, len)\<close> raises.\<close>

definition py_index :: "nat \<Rightarrow> int \<Rightarrow> py_error + nat" where
  "py_index len i =
    (if 0 \<le> i \<and> i < int len then Inr (nat i)
     else if - int len \<le> i \<and> i < 0 then Inr (nat (i + int len))
     else Inl IndexError)"

text \<open>
  The cells of \<^verbatim>\<open>d0\<close> that \<^verbatim>\<open>advect\<close> reads for one interior cell with clamped
  coordinates \<open>x\<close>, \<open>y\<close>: \<^verbatim>\<open>d0[i0, j0]\<close>, \<^verbatim>\<open>d0[i0, j1]\<close>, \<^verbatim>\<open>d0[i1, j0]\<close>,
  \<^verbatim>\<open>d0[i1, j1]\<close> on arrays of shape \<open>(N+2, N+2)\<close>, or the exception of the first index
  that does not fit.
\<close>

definition sample_reads ::
  "(real \<Rightarrow> int) \<Rightarrow> int \<Rightarrow> nat \<Rightarrow> fval \<Rightarrow> fval \<Rightarrow> py_error + (nat \<times> nat) list" where
  "sample_reads to_int bad N x y =
    (let i0 = to_index to_int bad x; i1 = i0 + 1;
         j0 = to_index to_int bad y; j1 = j0 + 1
     in and_then (py_index (N + 2) i0) (\<lambda>a0.
        and_then (py_index (N + 2) j0) (\<lambda>b0.
        and_then (py_index (N + 2) j1) (\<lambda>b1.
        and_then (py_index (N + 2) i1) (\<lambda>a1.
        Inr [(a0, b0), (a0, b1), (a1, b0), (a1, b1)])))))"

text \<open>
  The reads of a list of cells, gathered cell after cell; the first exception ends them.
  The source evaluates each of the four indexings over the whole interior at once; as
  every failure of an indexing is an \<^verbatim>\<open>IndexError\<close>, the exception is the same.
\<close>

primrec collect :: "('a \<Rightarrow> py_error + 'b list) \<Rightarrow> 'a list \<Rightarrow> py_error + 'b list" where
  "collect f [] = Inr []"
| "collect f (x # xs) = and_then (f x) (\<lambda>a. and_then (collect f xs) (\<lambda>b. Inr (a @ b)))"

definition interior_cells :: "nat \<Rightarrow> (nat \<times> nat) list" where
  "interior_cells N = List.product [1..<N + 1] [1..<N + 1]"

text \<open>
  The cells of \<^verbatim>\<open>d0\<close> that the sampling statement of \<^verbatim>\<open>advect\<close> reads over the whole
  interior, for float velocity fields \<open>u\<close>, \<open>v\<close> and a float \<open>dt\<close>, or the exception it
  raises. With \<open>to_int = trunc\<close> and \<open>bad = int32_min\<close> this is the pro variant
  (\<^verbatim>\<open>x.astype(np.int32)\<close>), with \<open>to_int = floor_int\<close> and \<open>bad = int64_min\<close> the thinking
  variant (\<^verbatim>\<open>np.floor(x).astype(int)\<close>). The sampled values are those of \<open>advect_with\<close>
  when the velocities and \<open>dt\<close> are numbers.
\<close>

definition advect_reads ::
  "(real \<Rightarrow> int) \<Rightarrow> int \<Rightarrow> nat \<Rightarrow> fval \<Rightarrow> (nat \<Rightarrow> nat \<Rightarrow> fval) \<Rightarrow> (nat \<Rightarrow> nat \<Rightarrow> fval) \<Rightarrow>
   py_error + (nat \<times> nat) list" where
  "advect_reads to_int bad N dt u v =
    collect (\<lambda>c. sample_reads to_int bad N
        (float_backtrace N dt (u (fst c) (snd c)) (fst c))
        (float_backtrace N dt (v (fst c) (snd c)) (snd c)))
      (interior_cells N)"

section \<open>Properties of the boundary rule\<close>

lemma set_bnd_interior:
  "interior N i j \<Longrightarrow> set_bnd b N x i j = x i j"
  by (simp add: set_bnd_def Let_def set_row_def set_col_def set_cell_def interior_def)

lemma set_bnd_outside:
  "N + 1 < i \<or> N + 1 < j \<Longrightarrow> set_bnd b N x i j = x i j"
  by (auto simp add: set_bnd_def Let_def set_row_def set_col_def set_cell_def)

lemma set_bnd_row0:
  "1 \<le> j \<Longrightarrow> j \<le> N \<Longrightarrow> set_bnd b N x 0 j = (if b = 1 then - x 1 j else x 1 j)"
  by (simp add: set_bnd_def Let_def set_row_def set_col_def set_cell_def)

lemma set_bnd_rowN:
  "1 \<le> j \<Longrightarrow> j \<le> N \<Longrightarrow> set_bnd b N x (N + 1) j = (if b = 1 then - x N j else x N j)"
  by (simp add: set_bnd_def Let_def set_row_def set_col_def set_cell_def)

lemma set_bnd_col0:
  "1 \<le> i \<Longrightarrow> i \<le> N \<Longrightarrow> set_bnd b N x i 0 = (if b = 2 then - x i 1 else x i 1)"
  by (simp add: set_bnd_def Let_def set_row_def set_col_def set_cell_def)

lemma set_bnd_colN:
  "1 \<le> i \<Longrightarrow> i \<le> N \<Longrightarrow> set_bnd b N x i (N + 1) = (if b = 2 then - x i N else x i N)"
  by (simp add: set_bnd_def Let_def set_row_def set_col_def set_cell_def)

lemma set_bnd_corner00:
  "1 \<le> N \<Longrightarrow> set_bnd b N x 0 0 = 0.5 * (set_bnd b N x 1 0 + set_bnd b N x 0 1)"
  by (simp add: set_bnd_def Let_def set_row_def set_col_def set_cell_def)

lemma set_bnd_corner0N:
  "1 \<le> N \<Longrightarrow>
   set_bnd b N x 0 (N + 1) = 0.5 * (set_bnd b N x 1 (N + 1) + set_bnd b N x 0 N)"
  by (simp add: set_bnd_def Let_def set_row_def set_col_def set_cell_def)

lemma set_bnd_cornerN0:
  "1 \<le> N \<Longrightarrow>
   set_bnd b N x (N + 1) 0 = 0.5 * (set_bnd b N x N 0 + set_bnd b N x (N + 1) 1)"
  by (simp add: set_bnd_def Let_def set_row_def set_col_def set_cell_def)

lemma set_bnd_cornerNN:
  "1 \<le> N \<Longrightarrow>
   set_bnd b N x (N + 1) (N + 1) =
     0.5 * (set_bnd b N x N (N + 1) + set_bnd b N x (N + 1) N)"
  by (simp add: set_bnd_def Let_def set_row_def set_col_def set_cell_def)


section \<open>Claims about the boundary rule\<close>

text \<open>
  C4. After the boundary rule with kind HORIZONTAL_VELOCITY (\<open>b = 1\<close>), ghost row \<open>0\<close> is
  the negation of row \<open>1\<close> and ghost row \<open>N+1\<close> the negation of row \<open>N\<close> at every
  interior column; with kind SCALAR (\<open>b = 0\<close>) the ghost rows are copies with the same
  sign. Rows \<open>1\<close> and \<open>N\<close> are the ones the call received.
\<close>

theorem boundary_reflection:
  "1 \<le> j \<Longrightarrow> j \<le> N \<Longrightarrow>
   set_bnd 1 N x 0 j = - set_bnd 1 N x 1 j \<and>
   set_bnd 1 N x (N + 1) j = - set_bnd 1 N x N j \<and>
   set_bnd 0 N x 0 j = set_bnd 0 N x 1 j \<and>
   set_bnd 0 N x (N + 1) j = set_bnd 0 N x N j \<and>
   set_bnd 1 N x 1 j = x 1 j \<and> set_bnd 1 N x N j = x N j \<and>
   set_bnd 0 N x 1 j = x 1 j \<and> set_bnd 0 N x N j = x N j"
  using set_bnd_row0 [of j N 1 x] set_bnd_rowN [of j N 1 x]
    set_bnd_row0 [of j N 0 x] set_bnd_rowN [of j N 0 x]
    set_bnd_interior [of N 1 j 1 x] set_bnd_interior [of N N j 1 x]
    set_bnd_interior [of N 1 j 0 x] set_bnd_interior [of N N j 0 x]
  by (simp add: interior_def)

theorem boundary_reflection_witness:
  "(1::nat) \<le> 2 \<and> (2::nat) \<le> 3 \<and>
   set_bnd 1 3 (\<lambda>i j. if i = 1 then 5 else 0) 1 2 = 5 \<and>
   set_bnd 1 3 (\<lambda>i j. if i = 1 then 5 else 0) 0 2 = - 5 \<and>
   set_bnd 0 3 (\<lambda>i j. if i = 1 then 5 else 0) 1 2 = 5 \<and>
   set_bnd 0 3 (\<lambda>i j. if i = 1 then 5 else 0) 0 2 = 5"
  using boundary_reflection [of 2 3 "\<lambda>i j. if i = 1 then 5 else 0"]
  by simp

text \<open>
  C5. For a grid with at least one interior cell and every kind \<open>b\<close>, after the boundary
  rule each corner is the average of its two adjacent edge cells: corner \<open>(0,0)\<close> equals
  \<open>0.5 * (field[1,0] + field[0,1])\<close>, and likewise the other three.
\<close>

theorem corner_averaging:
  "1 \<le> N \<Longrightarrow>
   set_bnd b N x 0 0 = 0.5 * (set_bnd b N x 1 0 + set_bnd b N x 0 1) \<and>
   set_bnd b N x 0 (N + 1) = 0.5 * (set_bnd b N x 1 (N + 1) + set_bnd b N x 0 N) \<and>
   set_bnd b N x (N + 1) 0 = 0.5 * (set_bnd b N x N 0 + set_bnd b N x (N + 1) 1) \<and>
   set_bnd b N x (N + 1) (N + 1) =
     0.5 * (set_bnd b N x N (N + 1) + set_bnd b N x (N + 1) N)"
  using set_bnd_corner00 set_bnd_corner0N set_bnd_cornerN0 set_bnd_cornerNN
  by blast

theorem corner_averaging_witness:
  "(1::nat) \<le> 2 \<and>
   set_bnd 2 2 (\<lambda>i j. real i + 3 * real j) 1 0 = - 4 \<and>
   set_bnd 2 2 (\<lambda>i j. real i + 3 * real j) 0 1 = 4 \<and>
   set_bnd 2 2 (\<lambda>i j. real i + 3 * real j) 0 0 = 0"
  using corner_averaging [of 2 2 "\<lambda>i j. real i + 3 * real j"]
  by (simp add: set_bnd_col0 set_bnd_row0)

text \<open>
  C8. The boundary rule leaves every interior cell \<open>(i, j)\<close>, \<open>1 \<le> i, j \<le> N\<close>, as it
  was, for every field and every kind.
\<close>

theorem set_bnd_frame:
  "interior N i j \<Longrightarrow> set_bnd b N x i j = x i j"
  by (rule set_bnd_interior)

theorem set_bnd_frame_witness:
  "interior 3 2 3 \<and> set_bnd 1 3 (\<lambda>i j. real i * 10 + real j) 2 3 = 23"
  using set_bnd_frame [of 3 2 3 1 "\<lambda>i j. real i * 10 + real j"]
  by (simp add: interior_def)

section \<open>Claims about source injection\<close>

text \<open>
  C10. Source injection updates every cell of the target, ghost cells included: each cell
  becomes \<open>field[c] + dt * source[c]\<close>. No boundary rule follows inside the injection, so
  the value of a ghost cell of the source arrives in the same ghost cell of the field:
  the ghost cell \<open>(0, j)\<close> holds \<open>x[0,j] + dt * s[0,j]\<close>, whatever row \<open>1\<close> holds.
\<close>

theorem add_source_every_cell:
  "add_source x s dt i j = x i j + dt * s i j \<and>
   add_source zeros (set_cell zeros 0 j a) dt 0 j = dt * a \<and>
   add_source zeros (set_cell zeros 0 j a) dt 1 j = 0"
  by (simp add: add_source_def zeros_def set_cell_def)

section \<open>Claims about advection\<close>

lemma clip_bounds:
  "lo \<le> hi \<Longrightarrow> lo \<le> clip x lo hi \<and> clip x lo hi \<le> hi"
  by (simp add: clip_def)

lemma backtrace_x_bounds:
  "0.5 \<le> backtrace_x N dt u i j \<and> backtrace_x N dt u i j \<le> real N + 0.5"
  unfolding backtrace_x_def by (rule clip_bounds) simp

lemma backtrace_y_bounds:
  "0.5 \<le> backtrace_y N dt v i j \<and> backtrace_y N dt v i j \<le> real N + 0.5"
  unfolding backtrace_y_def by (rule clip_bounds) simp

lemma floor_index_bounds:
  assumes "0.5 \<le> x" and "x \<le> real N + 0.5"
  shows "0 \<le> \<lfloor>x\<rfloor> \<and> \<lfloor>x\<rfloor> + 1 \<le> int N + 1"
proof -
  have "0 \<le> \<lfloor>x\<rfloor>" using assms(1) by simp
  moreover have "x < of_int (int N + 1)" using assms(2) by simp
  then have "\<lfloor>x\<rfloor> < int N + 1" by (simp only: floor_less_iff)
  ultimately show ?thesis by simp
qed

lemma trunc_index_bounds:
  assumes "0.5 \<le> x" and "x \<le> real N + 0.5"
  shows "0 \<le> trunc x \<and> trunc x + 1 \<le> int N + 1"
proof -
  have "trunc x = \<lfloor>x\<rfloor>" using assms(1) by (simp add: trunc_def)
  then show ?thesis using floor_index_bounds [OF assms] by simp
qed

lemma float_backtrace_Num:
  "float_backtrace N (Num dt) (Num a) k = Num (clip (real k - dt * real N * a) 0.5 (real N + 0.5))"
  by (simp add: float_backtrace_def)

lemma fclip_bounds:
  "lo \<le> hi \<Longrightarrow> fclip x lo hi \<noteq> NaN \<Longrightarrow>
   \<exists>r. fclip x lo hi = Num r \<and> lo \<le> r \<and> r \<le> hi"
  by (cases x) (simp_all add: clip_def)

lemma float_backtrace_bounds:
  "float_backtrace N dt a k \<noteq> NaN \<Longrightarrow>
   \<exists>r. float_backtrace N dt a k = Num r \<and> 0.5 \<le> r \<and> r \<le> real N + 0.5"
  unfolding float_backtrace_def by (rule fclip_bounds) simp_all

lemma to_int_index_bounds:
  assumes "to_int = trunc \<or> to_int = floor_int" and "0.5 \<le> x" and "x \<le> real N + 0.5"
  shows "0 \<le> to_int x \<and> to_int x + 1 \<le> int N + 1"
  using assms(1) trunc_index_bounds [OF assms(2,3)] floor_index_bounds [OF assms(2,3)]
  by (auto simp add: floor_int_def)

lemma py_index_in_range: "0 \<le> i \<Longrightarrow> i \<le> int N + 1 \<Longrightarrow> py_index (N + 2) i = Inr (nat i)"
  by (simp add: py_index_def)

lemma sample_reads_in_range:
  assumes "0 \<le> to_int x" "to_int x + 1 \<le> int N + 1" "0 \<le> to_int y" "to_int y + 1 \<le> int N + 1"
  shows "sample_reads to_int bad N (Num x) (Num y) =
    Inr [(nat (to_int x), nat (to_int y)), (nat (to_int x), nat (to_int y + 1)),
         (nat (to_int x + 1), nat (to_int y)), (nat (to_int x + 1), nat (to_int y + 1))]"
proof -
  have "py_index (N + 2) (to_int x) = Inr (nat (to_int x))"
    "py_index (N + 2) (to_int x + 1) = Inr (nat (to_int x + 1))"
    "py_index (N + 2) (to_int y) = Inr (nat (to_int y))"
    "py_index (N + 2) (to_int y + 1) = Inr (nat (to_int y + 1))"
    using assms by (intro py_index_in_range; linarith)+
  then show ?thesis
    by (simp only: sample_reads_def Let_def to_index.simps and_then_def sum.case)
qed

lemma sample_reads_on_grid:
  assumes ti: "to_int = trunc \<or> to_int = floor_int"
    and x: "float_backtrace N dt a i \<noteq> NaN" and y: "float_backtrace N dt c j \<noteq> NaN"
  shows "\<exists>r. sample_reads to_int bad N (float_backtrace N dt a i) (float_backtrace N dt c j) = Inr r \<and>
    (\<forall>p\<in>set r. fst p \<le> N + 1 \<and> snd p \<le> N + 1)"
proof -
  from float_backtrace_bounds [OF x] obtain xr
    where xr: "float_backtrace N dt a i = Num xr" "0.5 \<le> xr" "xr \<le> real N + 0.5" by blast
  from float_backtrace_bounds [OF y] obtain yr
    where yr: "float_backtrace N dt c j = Num yr" "0.5 \<le> yr" "yr \<le> real N + 0.5" by blast
  have ix: "0 \<le> to_int xr" "to_int xr + 1 \<le> int N + 1"
    using to_int_index_bounds [OF ti xr(2,3)] by simp_all
  have iy: "0 \<le> to_int yr" "to_int yr + 1 \<le> int N + 1"
    using to_int_index_bounds [OF ti yr(2,3)] by simp_all
  have n: "nat (to_int xr) \<le> N + 1" "nat (to_int xr + 1) \<le> N + 1"
    "nat (to_int yr) \<le> N + 1" "nat (to_int yr + 1) \<le> N + 1"
    using ix iy by linarith+
  show ?thesis
    unfolding xr(1) yr(1) sample_reads_in_range [OF ix iy]
    using n by simp
qed

lemma collect_on_grid:
  assumes "\<And>x. x \<in> set xs \<Longrightarrow> \<exists>r. f x = Inr r \<and> (\<forall>p\<in>set r. P p)"
  shows "\<exists>rs. collect f xs = Inr rs \<and> (\<forall>p\<in>set rs. P p)"
  using assms
proof (induction xs)
  case Nil
  then show ?case by simp
next
  case (Cons x xs)
  from Cons.prems [of x] obtain r where r: "f x = Inr r" "\<forall>p\<in>set r. P p" by auto
  from Cons.IH Cons.prems obtain rs where rs: "collect f xs = Inr rs" "\<forall>p\<in>set rs. P p"
    by auto
  show ?case using r rs by (auto simp add: and_then_def)
qed

lemma interior_cells_interior:
  "c \<in> set (interior_cells N) \<Longrightarrow> interior N (fst c) (snd c)"
  by (cases c) (auto simp add: interior_cells_def interior_def)

lemma advect_reads_on_grid:
  assumes ti: "to_int = trunc \<or> to_int = floor_int"
    and ok: "\<And>i j. interior N i j \<Longrightarrow>
      float_backtrace N dt (u i j) i \<noteq> NaN \<and> float_backtrace N dt (v i j) j \<noteq> NaN"
  shows "\<exists>cells. advect_reads to_int bad N dt u v = Inr cells \<and>
    (\<forall>p\<in>set cells. fst p \<le> N + 1 \<and> snd p \<le> N + 1)"
  unfolding advect_reads_def
proof (rule collect_on_grid)
  fix c assume "c \<in> set (interior_cells N)"
  then have "interior N (fst c) (snd c)" by (rule interior_cells_interior)
  from ok [OF this] show "\<exists>r. sample_reads to_int bad N
      (float_backtrace N dt (u (fst c) (snd c)) (fst c))
      (float_backtrace N dt (v (fst c) (snd c)) (snd c)) = Inr r \<and>
      (\<forall>p\<in>set r. fst p \<le> N + 1 \<and> snd p \<le> N + 1)"
    by (intro sample_reads_on_grid [OF ti]) simp_all
qed

lemma bilinear_cong:
  assumes "0 \<le> i0" "i0 + 1 \<le> int N + 1" "0 \<le> j0" "j0 + 1 \<le> int N + 1"
    and "\<And>i j. i \<le> N + 1 \<Longrightarrow> j \<le> N + 1 \<Longrightarrow> d0 i j = d0' i j"
  shows "bilinear d0 x y i0 j0 = bilinear d0' x y i0 j0"
proof -
  have "nat i0 \<le> N + 1" "nat (i0 + 1) \<le> N + 1" "nat j0 \<le> N + 1" "nat (j0 + 1) \<le> N + 1"
    using assms(1-4) by linarith+
  then show ?thesis by (simp add: bilinear_def Let_def assms(5))
qed

lemma advect_with_reads_grid:
  assumes ti: "to_int = trunc \<or> to_int = floor_int"
    and eq: "\<And>i j. i \<le> N + 1 \<Longrightarrow> j \<le> N + 1 \<Longrightarrow> d0 i j = d0' i j"
  shows "advect_with to_int b N dt d d0 u v = advect_with to_int b N dt d d0' u v"
proof -
  have "bilinear d0 (backtrace_x N dt u i j) (backtrace_y N dt v i j)
          (to_int (backtrace_x N dt u i j)) (to_int (backtrace_y N dt v i j)) =
        bilinear d0' (backtrace_x N dt u i j) (backtrace_y N dt v i j)
          (to_int (backtrace_x N dt u i j)) (to_int (backtrace_y N dt v i j))" for i j
    using to_int_index_bounds [OF ti, of "backtrace_x N dt u i j" N]
      to_int_index_bounds [OF ti, of "backtrace_y N dt v i j" N]
      backtrace_x_bounds [of N dt u i j] backtrace_y_bounds [of N dt v i j]
    by (intro bilinear_cong [where N = N] eq) simp_all
  then show ?thesis by (simp add: advect_with_def)
qed

lemma advect_with_interior:
  "interior N i j \<Longrightarrow>
   advect_with to_int b N dt d d0 u v i j =
   bilinear d0 (backtrace_x N dt u i j) (backtrace_y N dt v i j)
     (to_int (backtrace_x N dt u i j)) (to_int (backtrace_y N dt v i j))"
  by (simp add: advect_with_def set_bnd_interior set_interior_def)

lemma py_index_error: "py_index len i = Inl e \<Longrightarrow> e = IndexError"
  by (simp add: py_index_def split: if_splits)

lemma py_index_bad: "bad < - int len \<Longrightarrow> py_index len bad = Inl IndexError"
  by (simp add: py_index_def)

lemma sample_reads_error:
  "sample_reads to_int bad N x y = Inl e \<Longrightarrow> e = IndexError"
  by (auto simp add: sample_reads_def Let_def and_then_def split: sum.splits
      dest: py_index_error)

lemma sample_reads_nan:
  assumes bad: "bad < - int (N + 2)" and nan: "x = NaN \<or> y = NaN"
  shows "sample_reads to_int bad N x y = Inl IndexError"
proof (cases "x = NaN")
  case True
  then show ?thesis
    using py_index_bad [OF bad] by (simp add: sample_reads_def Let_def and_then_def)
next
  case False
  with nan have y: "y = NaN" by simp
  show ?thesis
  proof (cases "py_index (N + 2) (to_index to_int bad x)")
    case (Inl e)
    then show ?thesis
      using py_index_error [OF Inl] by (simp add: sample_reads_def Let_def and_then_def)
  next
    case (Inr n)
    then show ?thesis
      using py_index_bad [OF bad] y by (simp add: sample_reads_def Let_def and_then_def)
  qed
qed

lemma collect_error:
  assumes "x \<in> set xs" and "f x = Inl e" and "\<And>y e'. f y = Inl e' \<Longrightarrow> e' = e"
  shows "collect f xs = Inl e"
  using assms(1)
proof (induction xs)
  case Nil
  then show ?case by simp
next
  case (Cons z zs)
  show ?case
  proof (cases "f z")
    case (Inl e')
    then show ?thesis using assms(3) [OF Inl] by (simp add: and_then_def)
  next
    case (Inr r)
    with Cons.prems assms(2) have "x \<in> set zs" by auto
    from Cons.IH [OF this] Inr show ?thesis by (simp add: and_then_def)
  qed
qed

lemma interior_in_cells:
  "interior N i j \<Longrightarrow> (i, j) \<in> set (interior_cells N)"
  by (auto simp add: interior_cells_def interior_def)

lemma advect_reads_nan:
  assumes bad: "bad < - int (N + 2)" and cell: "interior N i j"
    and nan: "float_backtrace N dt (u i j) i = NaN \<or> float_backtrace N dt (v i j) j = NaN"
  shows "advect_reads to_int bad N dt u v = Inl IndexError"
  unfolding advect_reads_def
proof (rule collect_error [where x = "(i, j)"])
  show "(i, j) \<in> set (interior_cells N)" using cell by (rule interior_in_cells)
  show "sample_reads to_int bad N
      (float_backtrace N dt (u (fst (i, j)) (snd (i, j))) (fst (i, j)))
      (float_backtrace N dt (v (fst (i, j)) (snd (i, j))) (snd (i, j))) = Inl IndexError"
    using sample_reads_nan [OF bad nan] by simp
next
  fix y e'
  assume "sample_reads to_int bad N
      (float_backtrace N dt (u (fst y) (snd y)) (fst y))
      (float_backtrace N dt (v (fst y) (snd y)) (snd y)) = Inl e'"
  then show "e' = IndexError" by (rule sample_reads_error)
qed

text \<open>
  C7 as stated, for every velocity field, does not hold of the code: a NaN velocity cell
  gives a NaN coordinate, which \<^verbatim>\<open>np.clip\<close> returns unchanged and the integer cast turns
  into the least integer, \<open>-2147483648\<close> in the pro variant and
  \<open>-9223372036854775808\<close> in the thinking variant. On a grid with \<open>N = 2\<close> and
  \<open>dt = 0.1\<close> and with \<open>u[1,1]\<close> NaN, the first indexing of \<^verbatim>\<open>advect\<close> raises
  \<^verbatim>\<open>IndexError\<close>.
\<close>

theorem advect_nan_index_error:
  "float_backtrace 2 (Num (1 / 10)) NaN 1 = NaN \<and>
   to_index trunc int32_min (float_backtrace 2 (Num (1 / 10)) NaN 1) = - 2147483648 \<and>
   advect_reads trunc int32_min 2 (Num (1 / 10))
     (\<lambda>i j. if i = 1 \<and> j = 1 then NaN else Num 0) (\<lambda>i j. Num 0) = Inl IndexError \<and>
   to_index floor_int int64_min (float_backtrace 2 (Num (1 / 10)) NaN 1) = - 9223372036854775808 \<and>
   advect_reads floor_int int64_min 2 (Num (1 / 10))
     (\<lambda>i j. if i = 1 \<and> j = 1 then NaN else Num 0) (\<lambda>i j. Num 0) = Inl IndexError"
  by code_simp

text \<open>
  C7, amended. With truncation (pro variant) as with the floor (base and thinking
  variants):

  \<^item> a backtraced coordinate that is not NaN is a number in \<open>[0.5, N + 0.5]\<close> after the
    clamp, whatever the magnitude or sign of the velocity and infinite velocities
    included, and its sample indices \<open>i0\<close>, \<open>i0 + 1\<close> lie in \<open>[0, N + 1]\<close>;
  \<^item> if no coordinate of an interior cell is NaN, \<^verbatim>\<open>advect\<close> raises nothing and reads only
    cells \<open>(a, b)\<close> of \<^verbatim>\<open>d0\<close> with \<open>a, b \<le> N + 1\<close>;
  \<^item> if a coordinate of an interior cell is NaN and the cast of NaN is below \<open>-(N + 2)\<close>,
    \<^verbatim>\<open>advect\<close> raises \<^verbatim>\<open>IndexError\<close>;
  \<^item> for velocity fields and \<open>dt\<close> that are numbers the coordinates are those of
    \<open>backtrace_x\<close>, \<open>backtrace_y\<close>, never NaN and in \<open>[0.5, N + 0.5]\<close>; every interior cell
    of the result of \<open>advect_with\<close> is the bilinear sample of \<^verbatim>\<open>d0\<close> at these coordinates
    and indices, the indices lie in \<open>[0, N + 1]\<close>, and the result does not depend on
    the values of \<^verbatim>\<open>d0\<close> outside the array.
\<close>

theorem advect_reads_in_range:
  assumes "to_int = trunc \<or> to_int = floor_int"
  shows
  "(float_backtrace N fdt a k \<noteq> NaN \<longrightarrow>
      (\<exists>x. float_backtrace N fdt a k = Num x \<and> 0.5 \<le> x \<and> x \<le> real N + 0.5 \<and>
           0 \<le> to_int x \<and> to_int x + 1 \<le> int N + 1)) \<and>
   ((\<forall>i j. interior N i j \<longrightarrow>
        float_backtrace N fdt (fu i j) i \<noteq> NaN \<and> float_backtrace N fdt (fv i j) j \<noteq> NaN) \<longrightarrow>
      (\<exists>cells. advect_reads to_int bad N fdt fu fv = Inr cells \<and>
         (\<forall>p\<in>set cells. fst p \<le> N + 1 \<and> snd p \<le> N + 1))) \<and>
   (bad < - int (N + 2) \<longrightarrow> interior N m n \<longrightarrow>
      float_backtrace N fdt (gu m n) m = NaN \<or> float_backtrace N fdt (gv m n) n = NaN \<longrightarrow>
      advect_reads to_int bad N fdt gu gv = Inl IndexError) \<and>
   float_backtrace N (Num dt) (Num (u i j)) i = Num (backtrace_x N dt u i j) \<and>
   float_backtrace N (Num dt) (Num (v i j)) j = Num (backtrace_y N dt v i j) \<and>
   (\<exists>cells. advect_reads to_int bad N (Num dt) (\<lambda>i j. Num (u i j)) (\<lambda>i j. Num (v i j)) =
        Inr cells \<and> (\<forall>p\<in>set cells. fst p \<le> N + 1 \<and> snd p \<le> N + 1)) \<and>
   0.5 \<le> backtrace_x N dt u i j \<and> backtrace_x N dt u i j \<le> real N + 0.5 \<and>
   0.5 \<le> backtrace_y N dt v i j \<and> backtrace_y N dt v i j \<le> real N + 0.5 \<and>
   0 \<le> to_int (backtrace_x N dt u i j) \<and> to_int (backtrace_x N dt u i j) + 1 \<le> int N + 1 \<and>
   0 \<le> to_int (backtrace_y N dt v i j) \<and> to_int (backtrace_y N dt v i j) + 1 \<le> int N + 1 \<and>
   (interior N i j \<longrightarrow>
      advect_with to_int b N dt d d0 u v i j =
      bilinear d0 (backtrace_x N dt u i j) (backtrace_y N dt v i j)
        (to_int (backtrace_x N dt u i j)) (to_int (backtrace_y N dt v i j))) \<and>
   ((\<forall>i j. i \<le> N + 1 \<and> j \<le> N + 1 \<longrightarrow> d0 i j = d0' i j) \<longrightarrow>
      advect_with to_int b N dt d d0 u v = advect_with to_int b N dt d d0' u v)"
proof -
  note ti = assms
  have p1: "float_backtrace N fdt a k \<noteq> NaN \<longrightarrow>
      (\<exists>x. float_backtrace N fdt a k = Num x \<and> 0.5 \<le> x \<and> x \<le> real N + 0.5 \<and>
           0 \<le> to_int x \<and> to_int x + 1 \<le> int N + 1)"
  proof
    assume "float_backtrace N fdt a k \<noteq> NaN"
    from float_backtrace_bounds [OF this] obtain x
      where x: "float_backtrace N fdt a k = Num x" "0.5 \<le> x" "x \<le> real N + 0.5" by blast
    with to_int_index_bounds [OF ti x(2,3)] show "\<exists>x. float_backtrace N fdt a k = Num x \<and>
      0.5 \<le> x \<and> x \<le> real N + 0.5 \<and> 0 \<le> to_int x \<and> to_int x + 1 \<le> int N + 1"
      by blast
  qed
  have p2: "(\<forall>i j. interior N i j \<longrightarrow>
        float_backtrace N fdt (fu i j) i \<noteq> NaN \<and> float_backtrace N fdt (fv i j) j \<noteq> NaN) \<longrightarrow>
      (\<exists>cells. advect_reads to_int bad N fdt fu fv = Inr cells \<and>
         (\<forall>p\<in>set cells. fst p \<le> N + 1 \<and> snd p \<le> N + 1))"
    using advect_reads_on_grid [OF ti, of N fdt fu fv bad] by blast
  have p3: "bad < - int (N + 2) \<longrightarrow> interior N m n \<longrightarrow>
      float_backtrace N fdt (gu m n) m = NaN \<or> float_backtrace N fdt (gv m n) n = NaN \<longrightarrow>
      advect_reads to_int bad N fdt gu gv = Inl IndexError"
    using advect_reads_nan [of bad N m n fdt gu gv to_int] by blast
  have p4: "float_backtrace N (Num dt) (Num (u i j)) i = Num (backtrace_x N dt u i j)"
    "float_backtrace N (Num dt) (Num (v i j)) j = Num (backtrace_y N dt v i j)" for i j
    by (simp_all add: float_backtrace_Num backtrace_x_def backtrace_y_def)
  have p5: "\<exists>cells. advect_reads to_int bad N (Num dt) (\<lambda>i j. Num (u i j)) (\<lambda>i j. Num (v i j)) =
      Inr cells \<and> (\<forall>p\<in>set cells. fst p \<le> N + 1 \<and> snd p \<le> N + 1)"
    by (rule advect_reads_on_grid [OF ti]) (simp add: p4)
  have p6: "0.5 \<le> backtrace_x N dt u i j \<and> backtrace_x N dt u i j \<le> real N + 0.5"
    "0.5 \<le> backtrace_y N dt v i j \<and> backtrace_y N dt v i j \<le> real N + 0.5"
    by (rule backtrace_x_bounds, rule backtrace_y_bounds)
  have p7: "0 \<le> to_int (backtrace_x N dt u i j) \<and> to_int (backtrace_x N dt u i j) + 1 \<le> int N + 1"
    "0 \<le> to_int (backtrace_y N dt v i j) \<and> to_int (backtrace_y N dt v i j) + 1 \<le> int N + 1"
    using to_int_index_bounds [OF ti, of "backtrace_x N dt u i j" N]
      to_int_index_bounds [OF ti, of "backtrace_y N dt v i j" N] p6
    by simp_all
  have p8: "interior N i j \<longrightarrow>
      advect_with to_int b N dt d d0 u v i j =
      bilinear d0 (backtrace_x N dt u i j) (backtrace_y N dt v i j)
        (to_int (backtrace_x N dt u i j)) (to_int (backtrace_y N dt v i j))"
    by (simp add: advect_with_interior)
  have p9: "(\<forall>i j. i \<le> N + 1 \<and> j \<le> N + 1 \<longrightarrow> d0 i j = d0' i j) \<longrightarrow>
      advect_with to_int b N dt d d0 u v = advect_with to_int b N dt d d0' u v"
    using advect_with_reads_grid [OF ti, of N d0 d0'] by blast
  from p1 p2 p3 p4 [of i j] p5 p6 p7 p8 p9 show ?thesis by (intro conjI) blast+
qed

theorem advect_reads_in_range_witness:
  "(trunc = trunc \<or> trunc = floor_int) \<and>
   float_backtrace 2 (Num (1 / 10)) PInf 1 \<noteq> NaN \<and>
   (\<exists>x. float_backtrace 2 (Num (1 / 10)) PInf 1 = Num x \<and> 0.5 \<le> x \<and> x \<le> real 2 + 0.5 \<and>
        0 \<le> trunc x \<and> trunc x + 1 \<le> int 2 + 1) \<and>
   (\<forall>i j. float_backtrace 2 (Num (1 / 10)) (Num 1000) i \<noteq> NaN \<and>
      float_backtrace 2 (Num (1 / 10)) PInf j \<noteq> NaN) \<and>
   (\<exists>cells. advect_reads trunc int32_min 2 (Num (1 / 10)) (\<lambda>i j. Num 1000) (\<lambda>i j. PInf) =
        Inr cells \<and> (\<forall>p\<in>set cells. fst p \<le> 2 + 1 \<and> snd p \<le> 2 + 1)) \<and>
   int32_min < - int (2 + 2) \<and> interior 2 1 1 \<and>
   (float_backtrace 2 (Num (1 / 10)) NaN 1 = NaN \<or>
    float_backtrace 2 (Num (1 / 10)) (Num 0) 1 = NaN) \<and>
   advect_reads trunc int32_min 2 (Num (1 / 10)) (\<lambda>i j. NaN) (\<lambda>i j. Num 0) =
     Inl IndexError \<and>
   interior 2 1 2 \<and>
   advect_with trunc 0 2 (1 / 10) zeros (\<lambda>i j. real i * 10 + real j)
       (\<lambda>i j. 1000) (\<lambda>i j. - 1000) 1 2 =
     bilinear (\<lambda>i j. real i * 10 + real j)
       (backtrace_x 2 (1 / 10) (\<lambda>i j. 1000) 1 2) (backtrace_y 2 (1 / 10) (\<lambda>i j. - 1000) 1 2)
       (trunc (backtrace_x 2 (1 / 10) (\<lambda>i j. 1000) 1 2))
       (trunc (backtrace_y 2 (1 / 10) (\<lambda>i j. - 1000) 1 2)) \<and>
   list_all (\<lambda>i. list_all (\<lambda>j.
       real i * 10 + real j = (if i \<le> 3 \<and> j \<le> 3 then real i * 10 + real j else 99))
     [0..<4]) [0..<4] \<and>
   real 4 * 10 + real 4 \<noteq> (if (4::nat) \<le> 3 \<and> (4::nat) \<le> 3 then real 4 * 10 + real 4 else 99) \<and>
   advect_with trunc 0 2 (1 / 10) zeros (\<lambda>i j. real i * 10 + real j)
       (\<lambda>i j. 1000) (\<lambda>i j. - 1000) =
     advect_with trunc 0 2 (1 / 10) zeros
       (\<lambda>i j. if i \<le> 3 \<and> j \<le> 3 then real i * 10 + real j else 99)
       (\<lambda>i j. 1000) (\<lambda>i j. - 1000)"
proof -
  have ti: "trunc = trunc \<or> trunc = floor_int"
    by simp
  have coord: "float_backtrace 2 (Num (1 / 10)) PInf 1 \<noteq> NaN"
    by (simp add: float_backtrace_def)
  have coords: "\<forall>i j. float_backtrace 2 (Num (1 / 10)) (Num 1000) i \<noteq> NaN \<and>
      float_backtrace 2 (Num (1 / 10)) PInf j \<noteq> NaN"
    by (simp add: float_backtrace_def)
  have bad: "int32_min < - int (2 + 2)"
    by (simp add: int32_min_def)
  have cell1: "interior 2 1 1"
    by (simp add: interior_def)
  have nan: "float_backtrace 2 (Num (1 / 10)) NaN 1 = NaN \<or>
      float_backtrace 2 (Num (1 / 10)) (Num 0) 1 = NaN"
    by (simp add: float_backtrace_def)
  have cell: "interior 2 1 2"
    by (simp add: interior_def)
  have agree: "\<forall>i j. i \<le> 2 + 1 \<and> j \<le> 2 + 1 \<longrightarrow>
      real i * 10 + real j = (if i \<le> 3 \<and> j \<le> 3 then real i * 10 + real j else 99)"
    by simp
  have cells: "list_all (\<lambda>i. list_all (\<lambda>j.
       real i * 10 + real j = (if i \<le> 3 \<and> j \<le> 3 then real i * 10 + real j else 99))
     [0..<4]) [0..<4]"
    by (simp add: list_all_iff)
  have outside: "real 4 * 10 + real 4 \<noteq>
      (if (4::nat) \<le> 3 \<and> (4::nat) \<le> 3 then real 4 * 10 + real 4 else 99)"
    by simp
  from advect_reads_in_range [OF ti, where N = 2 and fdt = "Num (1 / 10)"
      and a = PInf and k = 1 and fu = "\<lambda>i j. Num 1000" and fv = "\<lambda>i j. PInf"
      and bad = int32_min and m = 1 and n = 1 and gu = "\<lambda>i j. NaN" and gv = "\<lambda>i j. Num 0"
      and dt = "1 / 10" and u = "\<lambda>i j. 1000" and v = "\<lambda>i j. - 1000"
      and i = 1 and j = 2 and b = 0 and d = zeros and ?d0.0 = "\<lambda>i j. real i * 10 + real j"
      and d0' = "\<lambda>i j. if i \<le> 3 \<and> j \<le> 3 then real i * 10 + real j else 99"]
    ti coord coords bad cell1 nan cell agree cells outside
  show ?thesis by blast
qed







section \<open>Diffusion with coefficient zero\<close>

lemma repeat_end: "repeat (Suc k) f x = f (repeat k f x)"
  by (induction k arbitrary: x) simp_all

lemma repeat_fixpoint: "f x = x \<Longrightarrow> repeat k f x = x"
  by (induction k) simp_all

lemma index_cases:
  fixes i :: nat
  obtains (lo) "i = 0" | (mid) "1 \<le> i" "i \<le> N" | (hi) "i = N + 1" | (out) "N + 1 < i"
  by (metis One_nat_def Suc_eq_plus1 Suc_leI not_less_eq_eq linorder_neqE_nat not_gr_zero)

lemma set_bnd_cong:
  assumes N: "1 \<le> N"
    and inner: "\<And>i j. interior N i j \<Longrightarrow> y i j = y' i j"
    and outer: "\<And>i j. N + 1 < i \<or> N + 1 < j \<Longrightarrow> y i j = y' i j"
  shows "set_bnd b N y = set_bnd b N y'"
proof (intro ext)
  fix i j
  have r0: "set_bnd b N y 0 j = set_bnd b N y' 0 j" if "1 \<le> j" "j \<le> N" for j
    using that N set_bnd_row0 [of j N b y] set_bnd_row0 [of j N b y'] inner [of 1 j]
    by (simp add: interior_def)
  have rN: "set_bnd b N y (N + 1) j = set_bnd b N y' (N + 1) j" if "1 \<le> j" "j \<le> N" for j
    using that N set_bnd_rowN [of j N b y] set_bnd_rowN [of j N b y'] inner [of N j]
    by (simp add: interior_def)
  have c0: "set_bnd b N y i 0 = set_bnd b N y' i 0" if "1 \<le> i" "i \<le> N" for i
    using that N set_bnd_col0 [of i N b y] set_bnd_col0 [of i N b y'] inner [of i 1]
    by (simp add: interior_def)
  have cN: "set_bnd b N y i (N + 1) = set_bnd b N y' i (N + 1)" if "1 \<le> i" "i \<le> N" for i
    using that N set_bnd_colN [of i N b y] set_bnd_colN [of i N b y'] inner [of i N]
    by (simp add: interior_def)
  have k00: "set_bnd b N y 0 0 = set_bnd b N y' 0 0"
    using N r0 [of 1] c0 [of 1] set_bnd_corner00 [of N b y] set_bnd_corner00 [of N b y']
    by simp
  have k0N: "set_bnd b N y 0 (N + 1) = set_bnd b N y' 0 (N + 1)"
    using N r0 [of N] cN [of 1] set_bnd_corner0N [of N b y] set_bnd_corner0N [of N b y']
    by simp
  have kN0: "set_bnd b N y (N + 1) 0 = set_bnd b N y' (N + 1) 0"
    using N rN [of 1] c0 [of N] set_bnd_cornerN0 [of N b y] set_bnd_cornerN0 [of N b y']
    by simp
  have kNN: "set_bnd b N y (N + 1) (N + 1) = set_bnd b N y' (N + 1) (N + 1)"
    using N rN [of N] cN [of N] set_bnd_cornerNN [of N b y] set_bnd_cornerNN [of N b y']
    by simp
  show "set_bnd b N y i j = set_bnd b N y' i j"
  proof (cases i rule: index_cases [where N = N])
    case lo
    show ?thesis
      using k00 r0 k0N
      by (cases j rule: index_cases [where N = N])
        (simp_all add: lo set_bnd_outside outer)
  next
    case mid
    show ?thesis
      using c0 cN mid
      by (cases j rule: index_cases [where N = N])
        (simp_all add: set_bnd_interior interior_def inner set_bnd_outside outer)
  next
    case hi
    show ?thesis
      using kN0 rN kNN
      by (cases j rule: index_cases [where N = N])
        (simp_all add: hi set_bnd_outside outer)
  next
    case out
    then show ?thesis by (simp add: set_bnd_outside outer)
  qed
qed


lemma repeat_outside:
  assumes "\<And>y. f y i j = y i j"
  shows "repeat k f x i j = x i j"
  using assms by (induction k arbitrary: x) simp_all

lemma copy_sweep_outside:
  "N + 1 < i \<or> N + 1 < j \<Longrightarrow> set_bnd b N (set_interior N y x0) i j = y i j"
  by (auto simp add: set_bnd_outside set_interior_def interior_def)

lemma copy_sweep_repeat:
  assumes N: "1 \<le> N" and k: "0 < k"
    and f: "\<And>y. f y = set_bnd b N (set_interior N y x0)"
  shows "repeat k f x = set_bnd b N (set_interior N x x0)"
proof -
  from k obtain m where m: "k = Suc m" by (cases k) simp_all
  have "repeat k f x = set_bnd b N (set_interior N (repeat m f x) x0)"
    by (simp only: m repeat_end f)
  also have "\<dots> = set_bnd b N (set_interior N x x0)"
  proof (rule set_bnd_cong [OF N])
    fix i j assume "interior N i j"
    then show "set_interior N (repeat m f x) x0 i j = set_interior N x x0 i j"
      by (simp add: set_interior_def)
  next
    fix i j assume out: "N + 1 < i \<or> N + 1 < j"
    then have "\<not> interior N i j" by (auto simp add: interior_def)
    moreover have "repeat m f x i j = x i j"
      using copy_sweep_outside [OF out] by (intro repeat_outside) (simp add: f)
    ultimately show "set_interior N (repeat m f x) x0 i j = set_interior N x x0 i j"
      by (simp add: set_interior_def)
  qed
  finally show ?thesis .
qed

lemma diffuse_sweep_zero: "diffuse_sweep b N 0 1 x0 y = set_bnd b N (set_interior N y x0)"
  by (simp add: diffuse_sweep_def)

lemma diffuse_base_sweep_zero: "diffuse_base_sweep b N 0 x0 y = set_bnd b N (set_interior N y x0)"
  by (simp add: diffuse_base_sweep_def)

lemma lin_solve_sweep_zero: "lin_solve_sweep b N 0 1 x0 y = set_bnd b N (set_interior N y x0)"
  by (simp add: lin_solve_sweep_def)

text \<open>
  C9. With diffusion coefficient \<open>0\<close> the weight \<open>a\<close> is \<open>0\<close> and the divisor is \<open>1\<close>:
  for every positive number of sweeps and every \<open>dt\<close>, on a grid with interior cells,
  \<^verbatim>\<open>diffuse\<close> returns the boundary rule applied to \<open>x\<close> with its interior replaced by
  that of \<open>x0\<close>, so every interior cell of the result is the cell of \<open>x0\<close>; in the pro,
  base and thinking variants.
\<close>

theorem diffuse_zero_coefficient:
  "0 < iters \<Longrightarrow> 1 \<le> N \<Longrightarrow>
   diffuse b N iters x x0 0 dt = Inr (set_bnd b N (set_interior N x x0)) \<and>
   diffuse_base b N iters x x0 0 dt = set_bnd b N (set_interior N x x0) \<and>
   diffuse_thinking b N x x0 0 dt = Inr (set_bnd b N (set_interior N x x0)) \<and>
   (\<forall>i j. interior N i j \<longrightarrow> set_bnd b N (set_interior N x x0) i j = x0 i j)"
  by (simp add: diffuse_def diffuse_base_def diffuse_thinking_def lin_solve_def
      copy_sweep_repeat [OF _ _ diffuse_sweep_zero]
      copy_sweep_repeat [OF _ _ diffuse_base_sweep_zero]
      copy_sweep_repeat [OF _ _ lin_solve_sweep_zero]
      set_bnd_interior set_interior_def)

theorem diffuse_zero_coefficient_witness:
  "(0::nat) < 3 \<and> (1::nat) \<le> 2 \<and>
   diffuse 1 2 3 zeros (\<lambda>i j. real i * 10 + real j) 0 (1 / 10) =
     Inr (set_bnd 1 2 (set_interior 2 zeros (\<lambda>i j. real i * 10 + real j))) \<and>
   set_bnd 1 2 (set_interior 2 zeros (\<lambda>i j. real i * 10 + real j)) 1 2 = 12 \<and>
   set_bnd 1 2 (set_interior 2 zeros (\<lambda>i j. real i * 10 + real j)) 0 2 = - 12"
  using diffuse_zero_coefficient [of 3 2 1 zeros "\<lambda>i j. real i * 10 + real j" "1 / 10"]
  by (simp add: set_bnd_row0 set_bnd_interior interior_def set_interior_def)

section \<open>The all-zero state\<close>

lemma set_bnd_zeros: "set_bnd b N zeros = zeros"
  by (intro ext) (simp add: set_bnd_def Let_def set_row_def set_col_def set_cell_def zeros_def)

lemma set_interior_zeros: "set_interior N zeros (\<lambda>i j. 0) = zeros"
  by (intro ext) (simp add: set_interior_def zeros_def)

lemma neighbours_zeros: "neighbours zeros i j = 0"
  by (simp add: neighbours_def zeros_def)

lemma zeros_apply: "zeros i j = 0"
  by (simp add: zeros_def)

lemma diffuse_sweep_zeros: "diffuse_sweep b N a c zeros zeros = zeros"
  by (simp add: diffuse_sweep_def neighbours_zeros zeros_apply set_interior_zeros set_bnd_zeros)

lemma lin_solve_sweep_zeros: "lin_solve_sweep b N a c zeros zeros = zeros"
  by (simp add: lin_solve_sweep_def neighbours_zeros zeros_apply set_interior_zeros set_bnd_zeros)

lemma pressure_sweep_zeros: "pressure_sweep N zeros zeros = zeros"
  by (simp add: pressure_sweep_def neighbours_zeros zeros_apply set_interior_zeros set_bnd_zeros)

lemma diffuse_zeros:
  "1 + 4 * (dt * diff * real N * real N) \<noteq> 0 \<Longrightarrow> diffuse b N iters zeros zeros diff dt = Inr zeros"
  by (simp add: diffuse_def Let_def repeat_fixpoint diffuse_sweep_zeros)

lemma diffuse_thinking_zeros:
  "1 + 4 * (dt * diff * real N * real N) \<noteq> 0 \<Longrightarrow> diffuse_thinking b N zeros zeros diff dt = Inr zeros"
  by (simp add: diffuse_thinking_def lin_solve_def Let_def repeat_fixpoint lin_solve_sweep_zeros)

lemma project_zeros: "project N iters zeros zeros zeros zeros = (zeros, zeros, zeros, zeros)"
  by (simp add: project_def Let_def zeros_apply set_interior_zeros set_bnd_zeros
      repeat_fixpoint pressure_sweep_zeros)

lemma project_thinking_zeros:
  "0 < N \<Longrightarrow> project_thinking N zeros zeros zeros zeros = Inr (zeros, zeros, zeros, zeros)"
  by (simp add: project_thinking_def Let_def zeros_apply set_interior_zeros set_bnd_zeros
      lin_solve_def repeat_fixpoint lin_solve_sweep_zeros)

lemma bilinear_zeros: "bilinear zeros x y i0 j0 = 0"
  by (simp add: bilinear_def Let_def zeros_apply)

lemma advect_with_zeros: "advect_with to_int b N dt zeros zeros u v = zeros"
  by (simp add: advect_with_def bilinear_zeros set_interior_zeros set_bnd_zeros)

lemma vorticity_confinement_zeros: "vorticity_confinement N zeros zeros eps dt = (zeros, zeros)"
  by (simp add: vorticity_confinement_def Let_def zeros_apply set_interior_zeros set_bnd_zeros)

lemma buoyancy_force_zeros: "buoyancy_force N zeros zeros coeff dt = zeros"
  by (simp add: buoyancy_force_def zeros_apply set_interior_zeros set_bnd_zeros)

lemma add_source_zeros: "add_source zeros zeros dt = zeros"
  by (simp add: add_source_def zeros_def)

lemma vorticity_confinement_thinking_zeros:
  "2 \<le> N \<Longrightarrow> vorticity_confinement_thinking N zeros zeros eps = Inr (zeros, zeros)"
  by (simp add: vorticity_confinement_thinking_def Let_def zeros_apply set_interior_zeros set_bnd_zeros)


lemma vel_step_zero:
  "vel_step P dt zero_fluid =
    (if 1 + 4 * (dt * pvisc P * real (pN P) * real (pN P)) = 0 then Inl ZeroDivisionError
     else Inr zero_fluid)"
  by (simp add: vel_step_def Let_def zero_fluid_def add_source_zeros buoyancy_force_zeros
      vorticity_confinement_zeros diffuse_def repeat_fixpoint diffuse_sweep_zeros
      project_state_def project_zeros advect_def advect_with_zeros)

lemma dens_step_zero:
  "dens_step P dt zero_fluid =
    (if 1 + 4 * (dt * pdiff P * real (pN P) * real (pN P)) = 0 then Inl ZeroDivisionError
     else Inr zero_fluid)"
  by (simp add: dens_step_def Let_def zero_fluid_def add_source_zeros
      diffuse_def repeat_fixpoint diffuse_sweep_zeros advect_def advect_with_zeros)

lemma step_zero:
  "step P dt zero_fluid =
    (if 1 + 4 * (dt * pvisc P * real (pN P) * real (pN P)) = 0 \<or>
        1 + 4 * (dt * pdiff P * real (pN P) * real (pN P)) = 0
     then Inl ZeroDivisionError else Inr zero_fluid)"
  by (simp add: step_def vel_step_zero dens_step_zero)

lemma steps_zero_ok:
  "list_all (\<lambda>dt. 1 + 4 * (dt * pvisc P * real (pN P) * real (pN P)) \<noteq> 0 \<and>
                   1 + 4 * (dt * pdiff P * real (pN P) * real (pN P)) \<noteq> 0) dts \<Longrightarrow>
   steps P dts zero_fluid = Inr zero_fluid"
  by (induction dts) (simp_all add: step_zero)

lemma steps_zero_returns:
  "steps P dts zero_fluid = Inr s \<Longrightarrow> s = zero_fluid"
  by (induction dts) (simp_all add: step_zero split: if_splits)


lemma project_thinking_zeros_cases:
  "project_thinking N zeros zeros zeros zeros =
    (if N = 0 then Inl ZeroDivisionError else Inr (zeros, zeros, zeros, zeros))"
proof (cases "N = 0")
  case True
  then show ?thesis by (simp add: project_thinking_def)
next
  case False
  then show ?thesis by (simp add: project_thinking_zeros)
qed

lemma vorticity_confinement_thinking_zeros_cases:
  "vorticity_confinement_thinking N zeros zeros eps =
    (if N < 2 then Inl IndexError else Inr (zeros, zeros))"
proof (cases "N < 2")
  case True
  then show ?thesis by (simp add: vorticity_confinement_thinking_def)
next
  case False
  then show ?thesis by (simp add: vorticity_confinement_thinking_zeros)
qed

lemma zero_fluid_sel:
  "f_u zero_fluid = zeros" "f_v zero_fluid = zeros" "f_u0 zero_fluid = zeros"
  "f_v0 zero_fluid = zeros" "f_dens zero_fluid = zeros" "f_dens0 zero_fluid = zeros"
  "f_p zero_fluid = zeros" "f_div zero_fluid = zeros"
  by (simp_all add: zero_fluid_def)

lemma zero_fluid_upd:
  "zero_fluid\<lparr>f_u := zeros\<rparr> = zero_fluid" "zero_fluid\<lparr>f_v := zeros\<rparr> = zero_fluid"
  "zero_fluid\<lparr>f_u0 := zeros\<rparr> = zero_fluid" "zero_fluid\<lparr>f_v0 := zeros\<rparr> = zero_fluid"
  "zero_fluid\<lparr>f_dens := zeros\<rparr> = zero_fluid" "zero_fluid\<lparr>f_dens0 := zeros\<rparr> = zero_fluid"
  "zero_fluid\<lparr>f_p := zeros\<rparr> = zero_fluid" "zero_fluid\<lparr>f_div := zeros\<rparr> = zero_fluid"
  by (simp_all add: zero_fluid_def)

lemma sources_thinking_state_zero: "sources_thinking_state P zero_fluid = zero_fluid"
  by (simp add: sources_thinking_state_def Let_def zero_fluid_sel add_source_zeros zero_fluid_upd)

lemma diffuse_thinking_zeros_cases:
  "diffuse_thinking b N zeros zeros diff dt =
    (if 1 + 4 * (dt * diff * real N * real N) = 0 then Inl ZeroDivisionError else Inr zeros)"
proof (cases "1 + 4 * (dt * diff * real N * real N) = 0")
  case True
  then show ?thesis by (simp add: diffuse_thinking_def lin_solve_def Let_def)
next
  case False
  then show ?thesis by (simp add: diffuse_thinking_zeros)
qed

lemma diffuse_thinking_state_zero:
  "diffuse_thinking_state P zero_fluid =
    (if 1 + 4 * (tdt P * tvisc P * real (tN P) * real (tN P)) = 0 then Inl ZeroDivisionError
     else Inr zero_fluid)"
  by (simp add: diffuse_thinking_state_def Let_def zero_fluid_sel diffuse_thinking_zeros_cases
      zero_fluid_upd)

lemma project_thinking_state_zero:
  "project_thinking_state P zero_fluid =
    (if tN P = 0 then Inl ZeroDivisionError else Inr zero_fluid)"
  by (simp add: project_thinking_state_def zero_fluid_sel project_thinking_zeros_cases
      zero_fluid_upd)

lemma advect_thinking_state_zero: "advect_thinking_state P zero_fluid = zero_fluid"
  by (simp add: advect_thinking_state_def Let_def zero_fluid_sel advect_floor_def
      advect_with_zeros zero_fluid_upd)

lemma vorticity_thinking_state_zero:
  "vorticity_thinking_state P zero_fluid =
    (if tvorticity P \<and> tN P < 2 then Inl IndexError else Inr zero_fluid)"
  by (simp add: vorticity_thinking_state_def zero_fluid_sel
      vorticity_confinement_thinking_zeros_cases zero_fluid_upd)

lemma and_then_Inr: "and_then (Inr a) f = f a"
  by (simp add: and_then_def)

lemma and_then_Inl: "and_then (Inl e) f = Inl e"
  by (simp add: and_then_def)

lemma and_then_assoc: "and_then (and_then r f) g = and_then r (\<lambda>a. and_then (f a) g)"
  by (cases r) (simp_all add: and_then_def)

lemma case_sum_and_then: "(case r of Inl e \<Rightarrow> Inl e | Inr a \<Rightarrow> f a) = and_then r f"
  by (simp add: and_then_def)

lemma vel_step_thinking_phases:
  "vel_step_thinking P s =
    and_then (diffuse_thinking_state P (sources_thinking_state P s)) (\<lambda>s1.
    and_then (project_thinking_state P s1) (\<lambda>s2.
    and_then (vorticity_thinking_state P (advect_thinking_state P s2)) (\<lambda>s3.
    project_thinking_state P s3)))"
  by (cases "tvorticity P")
    (simp_all add: vel_step_thinking_def sources_thinking_state_def
      diffuse_thinking_state_def project_thinking_state_def advect_thinking_state_def
      vorticity_thinking_state_def Let_def case_sum_and_then and_then_assoc and_then_Inr
      and_then_Inl split_def)

lemma vel_step_thinking_zero:
  "vel_step_thinking P zero_fluid =
    (if 1 + 4 * (tdt P * tvisc P * real (tN P) * real (tN P)) = 0 then Inl ZeroDivisionError
     else if tN P = 0 then Inl ZeroDivisionError
     else if tvorticity P \<and> tN P < 2 then Inl IndexError
     else Inr zero_fluid)"
  by (simp add: vel_step_thinking_phases and_then_def sources_thinking_state_zero
      diffuse_thinking_state_zero project_thinking_state_zero advect_thinking_state_zero
      vorticity_thinking_state_zero)

lemma dens_step_thinking_zero:
  "dens_step_thinking P zero_fluid =
    (if 1 + 4 * (tdt P * tdiff P * real (tN P) * real (tN P)) = 0 then Inl ZeroDivisionError
     else Inr zero_fluid)"
  by (simp add: dens_step_thinking_def Let_def zero_fluid_sel add_source_zeros zero_fluid_upd
      diffuse_thinking_zeros_cases advect_floor_def advect_with_zeros)


lemma step_thinking_zero:
  "step_thinking P zero_fluid =
    (if 1 + 4 * (tdt P * tvisc P * real (tN P) * real (tN P)) = 0 then Inl ZeroDivisionError
     else if tN P = 0 then Inl ZeroDivisionError
     else if tvorticity P \<and> tN P < 2 then Inl IndexError
     else if 1 + 4 * (tdt P * tdiff P * real (tN P) * real (tN P)) = 0
     then Inl ZeroDivisionError
     else Inr zero_fluid)"
  by (simp add: step_thinking_def and_then_def vel_step_thinking_zero dens_step_thinking_zero)

lemma step_thinking_zero_ok:
  assumes "1 \<le> tN P" and "tvorticity P \<longrightarrow> 2 \<le> tN P"
    and "1 + 4 * (tdt P * tvisc P * real (tN P) * real (tN P)) \<noteq> 0"
    and "1 + 4 * (tdt P * tdiff P * real (tN P) * real (tN P)) \<noteq> 0"
  shows "step_thinking P zero_fluid = Inr zero_fluid"
  using assms by (auto simp add: step_thinking_zero)

lemma step_thinking_zero_returns:
  "step_thinking P zero_fluid = Inr s \<Longrightarrow> s = zero_fluid"
  by (simp add: step_thinking_zero split: if_splits)

lemma steps_thinking_zero_ok:
  assumes "1 \<le> tN P" and "tvorticity P \<longrightarrow> 2 \<le> tN P"
    and "1 + 4 * (tdt P * tvisc P * real (tN P) * real (tN P)) \<noteq> 0"
    and "1 + 4 * (tdt P * tdiff P * real (tN P) * real (tN P)) \<noteq> 0"
  shows "steps_thinking P n zero_fluid = Inr zero_fluid"
  by (induction n) (simp_all add: and_then_def step_thinking_zero_ok [OF assms])

lemma steps_thinking_zero_returns:
  "steps_thinking P n zero_fluid = Inr s \<Longrightarrow> s = zero_fluid"
proof (induction n)
  case 0
  then show ?case by simp
next
  case (Suc n)
  show ?case
  proof (cases "step_thinking P zero_fluid")
    case (Inl e)
    with Suc.prems show ?thesis by (simp add: and_then_def)
  next
    case (Inr s1)
    then have "s1 = zero_fluid" by (rule step_thinking_zero_returns)
    with Inr Suc show ?thesis by (simp add: and_then_def)
  qed
qed

text \<open>
  C1. From the state whose eight fields are zero in every cell, any number of calls of
  \<^verbatim>\<open>step\<close> without source injection leaves every cell of every field zero. In the pro
  variant the calls return whenever no \<^verbatim>\<open>1 + 4 * a\<close> of a diffusion is zero; in the
  thinking variant they return for \<open>N \<ge> 1\<close> (\<open>N \<ge> 2\<close> with vorticity confinement on)
  under the same condition. Whenever the calls return at all, the state they return is
  the all-zero state.
\<close>

theorem zero_state_fixed_point:
  "(list_all (\<lambda>dt. 1 + 4 * (dt * pvisc P * real (pN P) * real (pN P)) \<noteq> 0 \<and>
                    1 + 4 * (dt * pdiff P * real (pN P) * real (pN P)) \<noteq> 0) dts
      \<longrightarrow> steps P dts zero_fluid = Inr zero_fluid) \<and>
   (steps P dts zero_fluid = Inr s \<longrightarrow> s = zero_fluid) \<and>
   (1 \<le> tN Q \<and> (tvorticity Q \<longrightarrow> 2 \<le> tN Q) \<and>
    1 + 4 * (tdt Q * tvisc Q * real (tN Q) * real (tN Q)) \<noteq> 0 \<and>
    1 + 4 * (tdt Q * tdiff Q * real (tN Q) * real (tN Q)) \<noteq> 0
      \<longrightarrow> steps_thinking Q n zero_fluid = Inr zero_fluid) \<and>
   (steps_thinking Q n zero_fluid = Inr s' \<longrightarrow> s' = zero_fluid)"
  using steps_zero_ok [of P dts] steps_zero_returns [of P dts s]
    steps_thinking_zero_ok [of Q n] steps_thinking_zero_returns [of Q n s']
  by blast

theorem zero_state_fixed_point_witness:
  "steps \<lparr>pN = 2, pdiff = 2 / 100000, pvisc = 1 / 10000, piters = 20,
          pbuoyancy = 6 / 10, pvorticity = 2\<rparr> [1 / 60, 1 / 10] zero_fluid = Inr zero_fluid \<and>
   steps_thinking \<lparr>tN = 2, tdt = 1 / 10, tdiff = 1 / 100000, tvisc = 1 / 100000,
          tvorticity = True\<rparr> 3 zero_fluid = Inr zero_fluid"
  using zero_state_fixed_point [of
      "\<lparr>pN = 2, pdiff = 2 / 100000, pvisc = 1 / 10000, piters = 20,
        pbuoyancy = 6 / 10, pvorticity = 2\<rparr>" "[1 / 60, 1 / 10]" zero_fluid
      "\<lparr>tN = 2, tdt = 1 / 10, tdiff = 1 / 100000, tvisc = 1 / 100000, tvorticity = True\<rparr>"
      3 zero_fluid]
  by simp


section \<open>Brushes\<close>

lemma brush_cell_apply:
  "0 \<le> ii \<Longrightarrow> 0 \<le> jj \<Longrightarrow>
   brush_cell i j r amount ii jj d a b =
     d a b + (if int a = ii \<and> int b = jj \<and> (ii - i) ^ 2 + (jj - j) ^ 2 \<le> r * r
              then amount else 0)"
  by (auto simp add: brush_cell_def set_cell_def)

lemma brush_row:
  assumes "0 \<le> ii" and "distinct js" and "\<forall>jj \<in> set js. 0 \<le> jj"
  shows "fold (brush_cell i j r amount ii) js d a b =
     d a b + (if int a = ii \<and> int b \<in> set js \<and> (ii - i) ^ 2 + (int b - j) ^ 2 \<le> r * r
              then amount else 0)"
  using assms(2,3)
proof (induction js arbitrary: d)
  case Nil
  then show ?case by simp
next
  case (Cons x xs)
  then have x: "0 \<le> x" "x \<notin> set xs" by simp_all
  have "fold (brush_cell i j r amount ii) (x # xs) d a b =
        fold (brush_cell i j r amount ii) xs (brush_cell i j r amount ii x d) a b"
    by simp
  also have "\<dots> = brush_cell i j r amount ii x d a b +
      (if int a = ii \<and> int b \<in> set xs \<and> (ii - i) ^ 2 + (int b - j) ^ 2 \<le> r * r
       then amount else 0)"
    using Cons by simp
  finally show ?case
    using x by (auto simp add: brush_cell_apply [OF assms(1) x(1)])
qed

lemma brush_rows:
  assumes "distinct is" and "\<forall>ii \<in> set is. 0 \<le> ii"
    and "distinct js" and "\<forall>jj \<in> set js. 0 \<le> jj"
  shows "fold (\<lambda>ii. fold (brush_cell i j r amount ii) js) is d a b =
     d a b + (if int a \<in> set is \<and> int b \<in> set js \<and>
                 (int a - i) ^ 2 + (int b - j) ^ 2 \<le> r * r
              then amount else 0)"
  using assms(1,2)
proof (induction "is" arbitrary: d)
  case Nil
  then show ?case by simp
next
  case (Cons x xs)
  then have x: "0 \<le> x" "x \<notin> set xs" by simp_all
  have "fold (\<lambda>ii. fold (brush_cell i j r amount ii) js) (x # xs) d a b =
        fold (\<lambda>ii. fold (brush_cell i j r amount ii) js) xs
          (fold (brush_cell i j r amount x) js d) a b"
    by simp
  also have "\<dots> = fold (brush_cell i j r amount x) js d a b +
      (if int a \<in> set xs \<and> int b \<in> set js \<and> (int a - i) ^ 2 + (int b - j) ^ 2 \<le> r * r
       then amount else 0)"
    using Cons by simp
  finally show ?case
    using x by (auto simp add: brush_row [OF x(1) assms(3,4)])
qed

lemma add_density_brush_cell:
  "f_dens0 (add_density_brush P s i0 j0 amount radius) a b =
     f_dens0 s a b +
     (if max 1 (clamp i0 1 (int (pN P)) - max 1 radius) \<le> int a \<and>
         int a \<le> min (int (pN P)) (clamp i0 1 (int (pN P)) + max 1 radius) \<and>
         max 1 (clamp j0 1 (int (pN P)) - max 1 radius) \<le> int b \<and>
         int b \<le> min (int (pN P)) (clamp j0 1 (int (pN P)) + max 1 radius) \<and>
         (int a - clamp i0 1 (int (pN P))) ^ 2 + (int b - clamp j0 1 (int (pN P))) ^ 2
           \<le> max 1 radius * max 1 radius
      then amount else 0)"
proof -
  have "f_dens0 (add_density_brush P s i0 j0 amount radius) a b =
    fold (\<lambda>ii. fold (brush_cell (clamp i0 1 (int (pN P))) (clamp j0 1 (int (pN P)))
        (max 1 radius) amount ii)
        [max 1 (clamp j0 1 (int (pN P)) - max 1 radius) .. min (int (pN P)) (clamp j0 1 (int (pN P)) + max 1 radius)])
      [max 1 (clamp i0 1 (int (pN P)) - max 1 radius) .. min (int (pN P)) (clamp i0 1 (int (pN P)) + max 1 radius)]
      (f_dens0 s) a b"
    by (simp add: add_density_brush_def Let_def)
  also have "\<dots> = f_dens0 s a b +
     (if max 1 (clamp i0 1 (int (pN P)) - max 1 radius) \<le> int a \<and>
         int a \<le> min (int (pN P)) (clamp i0 1 (int (pN P)) + max 1 radius) \<and>
         max 1 (clamp j0 1 (int (pN P)) - max 1 radius) \<le> int b \<and>
         int b \<le> min (int (pN P)) (clamp j0 1 (int (pN P)) + max 1 radius) \<and>
         (int a - clamp i0 1 (int (pN P))) ^ 2 + (int b - clamp j0 1 (int (pN P))) ^ 2
           \<le> max 1 radius * max 1 radius
      then amount else 0)"
    by (subst brush_rows) auto
  finally show ?thesis .
qed


lemma unit_disc_int:
  fixes x y :: int
  assumes "x ^ 2 + y ^ 2 \<le> 1"
  shows "\<bar>x\<bar> \<le> 1 \<and> \<bar>y\<bar> \<le> 1"
proof -
  have "0 \<le> x ^ 2" "0 \<le> y ^ 2" by simp_all
  with assms have "x ^ 2 \<le> 1" "y ^ 2 \<le> 1" by linarith+
  then show ?thesis by (simp add: abs_square_le_1)
qed

lemma clamp_range: "1 \<le> N \<Longrightarrow> 1 \<le> clamp x 1 N \<and> clamp x 1 N \<le> N"
  by (simp add: clamp_def)

lemma add_density_brush_radius_zero_cell:
  "f_dens0 (add_density_brush P s i0 j0 amount 0) a b =
     f_dens0 s a b +
     (if interior (pN P) a b \<and>
         (int a - clamp i0 1 (int (pN P))) ^ 2 + (int b - clamp j0 1 (int (pN P))) ^ 2 \<le> 1
      then amount else 0)"
proof -
  let ?i = "clamp i0 1 (int (pN P))" and ?j = "clamp j0 1 (int (pN P))"
  have "(max 1 (?i - 1) \<le> int a \<and> int a \<le> min (int (pN P)) (?i + 1) \<and>
         max 1 (?j - 1) \<le> int b \<and> int b \<le> min (int (pN P)) (?j + 1) \<and>
         (int a - ?i) ^ 2 + (int b - ?j) ^ 2 \<le> 1) =
        (interior (pN P) a b \<and> (int a - ?i) ^ 2 + (int b - ?j) ^ 2 \<le> 1)"
    using unit_disc_int [of "int a - ?i" "int b - ?j"]
    by (auto simp add: interior_def)
  then show ?thesis
    using add_density_brush_cell [of P s i0 j0 amount 0 a b] by simp
qed

lemma add_density_brush_other_fields:
  "add_density_brush P s i0 j0 amount radius =
     s\<lparr>f_dens0 := f_dens0 (add_density_brush P s i0 j0 amount radius)\<rparr>"
  by (simp add: add_density_brush_def Let_def)

lemma floor_clip_clamp:
  "1 \<le> N \<Longrightarrow> \<lfloor>clip (real_of_int x) 1 (real N)\<rfloor> = clamp x 1 (int N)"
proof -
  assume N: "1 \<le> N"
  have "clip (real_of_int x) 1 (real N) = real_of_int (clamp x 1 (int N))"
    using N by (auto simp add: clip_def clamp_def min_def max_def)
  then show ?thesis by simp
qed

lemma add_density_splat_radius_zero:
  "1 \<le> tN Q \<Longrightarrow>
   add_density_splat Q s x y amount 0 =
     Inr (s\<lparr>f_dens0 := set_cell (f_dens0 s)
            (nat (clamp x 1 (int (tN Q)))) (nat (clamp y 1 (int (tN Q))))
            (f_dens0 s (nat (clamp x 1 (int (tN Q)))) (nat (clamp y 1 (int (tN Q)))) + amount)\<rparr>)"
proof -
  assume N: "1 \<le> tN Q"
  let ?cx = "nat (clamp x 1 (int (tN Q)))" and ?cy = "nat (clamp y 1 (int (tN Q)))"
  have cx: "?cx \<le> tN Q + 1" "?cy \<le> tN Q + 1"
    using clamp_range [of "int (tN Q)" x] clamp_range [of "int (tN Q)" y] N by linarith+
  have "(\<lambda>i j. if ?cx \<le> i \<and> i \<le> ?cx \<and> ?cy \<le> j \<and> j \<le> ?cy \<and>
             (int i - int ?cx) ^ 2 + (int j - int ?cy) ^ 2 \<le> 0
          then f_dens0 s i j + amount else f_dens0 s i j) =
        set_cell (f_dens0 s) ?cx ?cy (f_dens0 s ?cx ?cy + amount)"
    by (intro ext) (auto simp add: set_cell_def)
  then show ?thesis
    using cx by (simp add: add_density_splat_def Let_def floor_clip_clamp [OF N])
qed

text \<open>
  The pro variant raises a radius below \<open>1\<close> to \<open>1\<close> (\<^verbatim>\<open>r = int(max(1, radius))\<close>). On
  a grid with \<open>N = 3\<close>, the density brush at \<open>(2, 2)\<close> with amount \<open>1\<close> and radius \<open>0\<close>
  changes cell \<open>(1, 2)\<close> of \<^verbatim>\<open>dens0\<close>, which is not the clamped cell \<open>(2, 2)\<close>.
\<close>

theorem brush_radius_zero_counterexample:
  "clamp 2 1 3 = 2 \<and> f_dens0 zero_fluid 1 2 = 0 \<and>
   f_dens0 (add_density_brush
     \<lparr>pN = 3, pdiff = 0, pvisc = 0, piters = 20, pbuoyancy = 0, pvorticity = 0\<rparr>
     zero_fluid 2 2 1 0) 1 2 = 1"
  by (simp add: add_density_brush_radius_zero_cell clamp_def zero_fluid_def zeros_def
      interior_def)

text \<open>
  C2, amended. With radius \<open>0\<close>, the density brush of the pro variant adds the amount to
  every interior cell \<open>(a, b)\<close> of \<^verbatim>\<open>dens0\<close> with
  \<open>(a - clamp(i,1,N))\<^sup>2 + (b - clamp(j,1,N))\<^sup>2 \<le> 1\<close>, that is the clamped cell and its
  axis neighbours inside \<open>[1, N]\<close>, and changes no other cell and no other field. The
  density splat of the thinking variant, on a grid with \<open>N \<ge> 1\<close>, adds the amount to
  exactly the cell \<open>(clamp(i,1,N), clamp(j,1,N))\<close> of \<^verbatim>\<open>d0\<close> and changes nothing else.
\<close>

theorem brush_radius_zero:
  "add_density_brush P s i j amount 0 =
     s\<lparr>f_dens0 := (\<lambda>a b. f_dens0 s a b +
          (if interior (pN P) a b \<and>
              (int a - clamp i 1 (int (pN P))) ^ 2 + (int b - clamp j 1 (int (pN P))) ^ 2 \<le> 1
           then amount else 0))\<rparr> \<and>
   (1 \<le> tN Q \<longrightarrow>
    add_density_splat Q s i j amount 0 =
      Inr (s\<lparr>f_dens0 := set_cell (f_dens0 s)
             (nat (clamp i 1 (int (tN Q)))) (nat (clamp j 1 (int (tN Q))))
             (f_dens0 s (nat (clamp i 1 (int (tN Q)))) (nat (clamp j 1 (int (tN Q)))) +
              amount)\<rparr>))"
proof -
  have "f_dens0 (add_density_brush P s i j amount 0) =
    (\<lambda>a b. f_dens0 s a b +
          (if interior (pN P) a b \<and>
              (int a - clamp i 1 (int (pN P))) ^ 2 + (int b - clamp j 1 (int (pN P))) ^ 2 \<le> 1
           then amount else 0))"
    by (intro ext) (rule add_density_brush_radius_zero_cell)
  then show ?thesis
    using add_density_brush_other_fields [of P s i j amount 0]
      add_density_splat_radius_zero [of Q s i j amount]
    by simp
qed

theorem brush_radius_zero_witness:
  "(1::nat) \<le> 3 \<and>
   f_dens0 (add_density_brush
     \<lparr>pN = 3, pdiff = 0, pvisc = 0, piters = 20, pbuoyancy = 0, pvorticity = 0\<rparr>
     zero_fluid 7 2 5 0) 3 2 = 5 \<and>
   f_dens0 (add_density_brush
     \<lparr>pN = 3, pdiff = 0, pvisc = 0, piters = 20, pbuoyancy = 0, pvorticity = 0\<rparr>
     zero_fluid 7 2 5 0) 2 2 = 5 \<and>
   f_dens0 (add_density_brush
     \<lparr>pN = 3, pdiff = 0, pvisc = 0, piters = 20, pbuoyancy = 0, pvorticity = 0\<rparr>
     zero_fluid 7 2 5 0) 1 2 = 0 \<and>
   add_density_splat \<lparr>tN = 3, tdt = 0, tdiff = 0, tvisc = 0, tvorticity = True\<rparr>
     zero_fluid 7 2 5 0 = Inr (zero_fluid\<lparr>f_dens0 := set_cell zeros 3 2 5\<rparr>)"
  using brush_radius_zero [of
      "\<lparr>pN = 3, pdiff = 0, pvisc = 0, piters = 20, pbuoyancy = 0, pvorticity = 0\<rparr>"
      zero_fluid 7 2 5 "\<lparr>tN = 3, tdt = 0, tdiff = 0, tvisc = 0, tvorticity = True\<rparr>"]
  by (simp add: clamp_def zero_fluid_def zeros_def interior_def)


section \<open>Order of the velocity step\<close>

lemma vel_step_phases:
  "vel_step P dt s =
    and_then (diffuse_state P dt
        (vorticity_state P dt (buoyancy_state P dt (sources_state P dt s))))
      (\<lambda>s1. Inr (project_state P (advect_state P dt (project_state P s1))))"
  by (simp add: vel_step_def sources_state_def buoyancy_state_def vorticity_state_def
      diffuse_state_def advect_state_def project_state_def Let_def case_sum_and_then
      and_then_assoc and_then_Inr and_then_Inl split_def)

text \<open>
  C3, amended. The velocity step of the pro variant runs its phases in this order:
  sources from \<open>u0\<close>, \<open>v0\<close> and zeroing of those buffers; buoyancy; vorticity
  confinement; diffusion of \<open>u\<close>, \<open>v\<close> against a copy of the velocity before diffusion;
  projection; advection of \<open>u\<close>, \<open>v\<close> along a copy of the velocity itself; projection.
  The velocity part of the thinking variant's step has no buoyancy and runs: sources and
  zeroing; diffusion; projection; advection; vorticity confinement (when enabled);
  projection.
\<close>

theorem velocity_step_order:
  "vel_step P dt s =
    and_then (diffuse_state P dt
        (vorticity_state P dt (buoyancy_state P dt (sources_state P dt s))))
      (\<lambda>s1. Inr (project_state P (advect_state P dt (project_state P s1)))) \<and>
   vel_step_thinking Q s' =
    and_then (diffuse_thinking_state Q (sources_thinking_state Q s')) (\<lambda>s1.
    and_then (project_thinking_state Q s1) (\<lambda>s2.
    and_then (vorticity_thinking_state Q (advect_thinking_state Q s2)) (\<lambda>s3.
    project_thinking_state Q s3)))"
  using vel_step_phases [of P dt s] vel_step_thinking_phases [of Q s'] by simp

text \<open>
  The thinking variant does not run vorticity confinement before diffusion and the first
  projection. With \<open>N = 0\<close> and vorticity confinement on, its step raises the
  \<^verbatim>\<open>ZeroDivisionError\<close> of \<^verbatim>\<open>project\<close> (\<^verbatim>\<open>h = 1.0 / N\<close>), which it reaches before
  vorticity confinement; the same phases in the claimed order, with vorticity confinement
  right after the sources, raise the \<^verbatim>\<open>IndexError\<close> of \<^verbatim>\<open>vorticity_confinement\<close>.
\<close>

theorem velocity_step_order_counterexample:
  "vel_step_thinking \<lparr>tN = 0, tdt = 1 / 10, tdiff = 0, tvisc = 0, tvorticity = True\<rparr>
     zero_fluid = Inl ZeroDivisionError \<and>
   and_then (vorticity_thinking_state
       \<lparr>tN = 0, tdt = 1 / 10, tdiff = 0, tvisc = 0, tvorticity = True\<rparr>
       (sources_thinking_state
         \<lparr>tN = 0, tdt = 1 / 10, tdiff = 0, tvisc = 0, tvorticity = True\<rparr> zero_fluid))
     (\<lambda>s1. and_then (diffuse_thinking_state
         \<lparr>tN = 0, tdt = 1 / 10, tdiff = 0, tvisc = 0, tvorticity = True\<rparr> s1)
     (\<lambda>s2. and_then (project_thinking_state
         \<lparr>tN = 0, tdt = 1 / 10, tdiff = 0, tvisc = 0, tvorticity = True\<rparr> s2)
     (\<lambda>s3. project_thinking_state
         \<lparr>tN = 0, tdt = 1 / 10, tdiff = 0, tvisc = 0, tvorticity = True\<rparr>
         (advect_thinking_state
           \<lparr>tN = 0, tdt = 1 / 10, tdiff = 0, tvisc = 0, tvorticity = True\<rparr> s3))))
     = Inl IndexError"
  by (simp add: vel_step_thinking_zero sources_thinking_state_zero
      vorticity_thinking_state_zero and_then_Inl)


end
